theory Spec2Isabelle
  imports Main
begin

section \<open>Thrown values\<close>

text \<open>
  Everything the modelled code can throw. \<open>InteractionError\<close> is the repository's own
  class (classes/InteractionError.class.ts, found in src/unnamed/part_004): a message, the
  interaction id and the reason.
  \<open>Error\<close>, \<open>RangeError\<close> and \<open>TypeError\<close> are the built-in classes with their message;
  \<open>Thrown\<close> is a thrown value that is not an error object and has no \<open>message\<close>, other
  than \<open>undefined\<close>, \<open>null\<close> and symbols, given by its string rendering.
\<close>

datatype reason = expired | failed

datatype exn =
    Error string
  | RangeError string
  | TypeError string
  | InteractionError string string reason
  | Thrown string

text \<open>\<open>err.message\<close>: \<open>undefined\<close> on a value that is not an error object.\<close>

fun message :: "exn \<Rightarrow> string option" where
  "message (Error m) = Some m"
| "message (RangeError m) = Some m"
| "message (TypeError m) = Some m"
| "message (InteractionError m _ _) = Some m"
| "message (Thrown _) = None"

text \<open>
  String conversion of a thrown value, as in a template literal or in \<open>'...' + err\<close>:
  \<open>Error.prototype.toString\<close> gives \<open>name: message\<close>; \<open>InteractionError\<close> sets its
  \<open>name\<close> to \<open>'InteractionError'\<close>.
\<close>

fun toString :: "exn \<Rightarrow> string" where
  "toString (Error m) = ''Error: '' @ m"
| "toString (RangeError m) = ''RangeError: '' @ m"
| "toString (TypeError m) = ''TypeError: '' @ m"
| "toString (InteractionError m _ _) = ''InteractionError: '' @ m"
| "toString (Thrown s) = s"

text \<open>\<open>`${x}`\<close> for an optional string: \<open>undefined\<close> prints as \<open>undefined\<close>.\<close>

fun template :: "string option \<Rightarrow> string" where
  "template None = ''undefined''"
| "template (Some s) = s"

text \<open>
  A handler is caller code and may throw any value at all: one of the above, or
  \<open>undefined\<close> or \<open>null\<close> (kept by its printed form; a rejected promise without a reason
  rejects with \<open>undefined\<close>), or a symbol.
\<close>

datatype thrown = Obj exn | Nullish string | Symbol

text \<open>
  The template \<open>`${err.message ?? err}`\<close> of the error record. Reading \<open>message\<close> of
  \<open>undefined\<close> or \<open>null\<close> throws a \<open>TypeError\<close>; a symbol has no \<open>message\<close> and cannot be
  converted to a string, which throws a \<open>TypeError\<close> as well. Otherwise the text is the
  message, or the string conversion of the value when the message is \<open>undefined\<close>.
\<close>

fun describe :: "thrown \<Rightarrow> exn + string" where
  "describe (Obj e) = Inr (case message e of Some m \<Rightarrow> m | None \<Rightarrow> toString e)"
| "describe (Nullish s) =
     Inl (TypeError (''Cannot read properties of '' @ s @ '' (reading 'message')''))"
| "describe Symbol = Inl (TypeError ''Cannot convert a Symbol value to a string'')"

section \<open>Cooldown tracker (utils/cooldown.ts)\<close>

text \<open>
  Source: \<open>checkCooldown\<close> and its \<open>tracker\<close>, found in src/unnamed/part_001.
  The module-level tracker is a \<open>Map<commandName, Map<userId, canBeUsedAgainAt>>\<close>.
  Both levels are modelled as partial functions. Timestamps are the integer
  milliseconds that \<open>Date.now()\<close> returns; the cooldown argument is
  \<open>number | undefined\<close>, with \<open>undefined\<close> as \<open>None\<close>.
\<close>

type_synonym cooldownMap = "string \<rightharpoonup> int"
type_synonym tracker = "string \<rightharpoonup> cooldownMap"

text \<open>
  The clean-up loop \<open>for (const [id, expiry] of cooldownMap) if (expiry <= now) delete\<close>
  removes exactly the entries whose expiry has passed.
\<close>

definition sweep :: "int \<Rightarrow> cooldownMap \<Rightarrow> cooldownMap" where
  "sweep now m =
     (\<lambda>id. case m id of
              None \<Rightarrow> None
            | Some expiry \<Rightarrow> if expiry \<le> now then None else Some expiry)"

text \<open>
  \<open>checkCooldown\<close> with the clock reading \<open>now\<close> and the tracker passed in and the
  updated tracker returned. \<open>!commandCooldown\<close> holds for \<open>undefined\<close> and for \<open>0\<close>;
  \<open>canBeUsedAgainAt && now < canBeUsedAgainAt\<close> is false for a missing entry and for
  the number \<open>0\<close>.
\<close>

definition checkCooldown ::
  "string \<Rightarrow> int option \<Rightarrow> string \<Rightarrow> int \<Rightarrow> tracker \<Rightarrow> int \<times> tracker" where
  "checkCooldown commandName commandCooldown userId now tr =
     (case commandCooldown of
        None \<Rightarrow> (0, tr)
      | Some cd \<Rightarrow>
          if cd = 0 then (0, tr)
          else
            let cooldownMap = (case tr commandName of None \<Rightarrow> Map.empty | Some m \<Rightarrow> m);
                cooldownMap = sweep now cooldownMap
            in (case cooldownMap userId of
                  Some canBeUsedAgainAt \<Rightarrow>
                    if canBeUsedAgainAt \<noteq> 0 \<and> now < canBeUsedAgainAt
                    then (canBeUsedAgainAt - now, tr(commandName \<mapsto> cooldownMap))
                    else (0, tr(commandName \<mapsto> cooldownMap(userId \<mapsto> now + cd)))
                | None \<Rightarrow> (0, tr(commandName \<mapsto> cooldownMap(userId \<mapsto> now + cd)))))"

text \<open>The expiry stored for a (command, user) pair, if any.\<close>

definition entry :: "tracker \<Rightarrow> string \<Rightarrow> string \<Rightarrow> int option" where
  "entry tr commandName userId =
     (case tr commandName of None \<Rightarrow> None | Some m \<Rightarrow> m userId)"

text \<open>
  A history of calls \<open>(time, command, user)\<close>, each made with the cooldown that the
  command of that name is configured with (\<open>cd\<close>), replayed from a given tracker.
\<close>

fun calls :: "(string \<Rightarrow> int option) \<Rightarrow> (int \<times> string \<times> string) list \<Rightarrow> tracker \<Rightarrow> tracker" where
  "calls cd [] tr = tr"
| "calls cd ((t, c, u) # rest) tr = calls cd rest (snd (checkCooldown c (cd c) u t tr))"

text \<open>Every stored expiry of a command lies at most its cooldown ahead of time \<open>t\<close>.\<close>

definition bounded :: "(string \<Rightarrow> int option) \<Rightarrow> int \<Rightarrow> tracker \<Rightarrow> bool" where
  "bounded cd t tr \<longleftrightarrow>
     (\<forall>c u e. entry tr c u = Some e \<longrightarrow> (\<exists>D. cd c = Some D \<and> e \<le> t + D))"

section \<open>Permission resolution (utils/permissions.ts, types/permission.ts)\<close>

unbundle bit_operations_syntax

text \<open>
  Source: \<open>getPermissionsForLevel\<close> in src/src/utils/permissions.ts and the type
  \<open>PermissionLevel\<close>, found in src/unnamed/part_002.

  A JavaScript \<open>number\<close> is either an integer or not (a fraction, \<open>NaN\<close>, an infinity);
  \<open>BigInt(n)\<close> returns the integer and throws a \<open>RangeError\<close> otherwise. A number that
  is not an integer is kept by its printed form, which the error message quotes.
\<close>

datatype js_number = Integral int | NonIntegral string

definition BigInt :: "js_number \<Rightarrow> exn + int" where
  "BigInt n =
     (case n of
        Integral i \<Rightarrow> Inr i
      | NonIntegral s \<Rightarrow>
          Inl (RangeError (''The number '' @ s
                 @ '' cannot be converted to a BigInt because it is not an integer'')))"

text \<open>
  The public type \<open>PermissionLevel\<close>: the four named levels, \<open>null\<close>, \<open>undefined\<close>,
  a \<open>bigint\<close>, a \<open>number\<close>, or a list of keys of \<open>PermissionFlagsBits\<close>.
\<close>

datatype PermissionLevel =
    Admin
  | Owner
  | Disabled
  | User
  | Null
  | Undefined
  | Bigint int
  | Number js_number
  | Flags "string list"

text \<open>
  \<open>PermissionFlagsBits\<close> belongs to the discord.js library, so the table is a parameter
  \<open>bits\<close> from flag names to their \<open>bigint\<close> values. \<open>new PermissionsBitField(names).bitfield\<close>
  resolves an array by OR-ing the values of its elements onto the default bit \<open>0n\<close>.
  A \<open>bigint\<close> is unbounded, hence \<open>int\<close>; the result \<open>bigint | null\<close> is an \<open>int option\<close>.
\<close>

definition bitfield :: "(string \<Rightarrow> int) \<Rightarrow> string list \<Rightarrow> int" where
  "bitfield bits names = foldl (\<lambda>prev bit. prev OR bit) 0 (map bits names)"

definition getPermissionsForLevel :: "(string \<Rightarrow> int) \<Rightarrow> PermissionLevel \<Rightarrow> exn + int option" where
  "getPermissionsForLevel bits level =
     (case level of
        Admin \<Rightarrow> Inr (Some (bits ''Administrator''))
      | Owner \<Rightarrow> Inr (Some 0)
      | Disabled \<Rightarrow> Inr (Some 0)
      | Bigint i \<Rightarrow> Inr (Some i)
      | Number n \<Rightarrow> (case BigInt n of Inl e \<Rightarrow> Inl e | Inr i \<Rightarrow> Inr (Some i))
      | Flags names \<Rightarrow> Inr (Some (bitfield bits names))
      | _ \<Rightarrow> Inr None)"

section \<open>Interactions and the reply primitives (utils/editAndReply.ts)\<close>

text \<open>
  Source: \<open>safeReply\<close>, found in src/src/utils/miliseconds.ts after the enum of durations.

  What the code reads of a platform interaction: its id, creation time, the invoking
  user, the guild (\<open>null\<close> outside one), the selected subcommand of a slash command and
  the custom id of a button click or modal submission.
\<close>

record interaction =
  i_id :: string
  createdTimestamp :: int
  userId :: string
  guildId :: "string option"
  subcommand :: "string option"
  customId :: string

text \<open>A button of a message: its custom id and whether it is disabled.\<close>

record button =
  b_customId :: string
  b_disabled :: bool

text \<open>
  The reply payload that \<open>safeReply\<close> assembles with conditional spreads: a field is
  present only when its argument is truthy. Embeds and files are opaque renderings.
\<close>

record payload =
  content :: "string option"
  ephemeral :: bool
  embeds :: "string list option"
  components :: "button list option"
  files :: "string list option"

datatype primitive = reply | fetchReply | followUp | editReply | update

text \<open>A record handed to the logger: \<open>log(message, level, scope, logToConsole = false)\<close>.\<close>

record log_entry =
  l_message :: string
  l_level :: string
  l_scope :: string
  logToConsole :: bool

text \<open>
  The state outside the objects of this code: the clock behind \<open>Date.now()\<close>, the
  cooldown tracker of the module, the \<open>replied\<close> and \<open>deferred\<close> flags of the interactions
  (by id), every call made to a platform primitive (in order, whether it succeeded or
  not), every call made to an attached logger, and the platform itself: whether the call
  of a primitive on an interaction, made after \<open>n\<close> earlier calls, rejects and with what.
\<close>

record world =
  clock :: int
  tracker :: tracker
  replied :: "string set"
  deferred :: "string set"
  attempts :: "(primitive \<times> string \<times> payload option) list"
  logged :: "log_entry list"
  platform :: "primitive \<Rightarrow> string \<Rightarrow> nat \<Rightarrow> exn option"

text \<open>
  The outcome of an asynchronous function: the thrown value, if any, and the state it
  leaves. What it did before throwing stays done.
\<close>

type_synonym outcome = "exn option \<times> world"

text \<open>
  Calling a primitive records the attempt and asks the platform. A successful
  \<open>interaction.reply\<close> sets the interaction's \<open>replied\<close> flag.
\<close>

definition call :: "primitive \<Rightarrow> interaction \<Rightarrow> payload option \<Rightarrow> world \<Rightarrow> outcome" where
  "call p i pl w =
     (let w' = w\<lparr>attempts := attempts w @ [(p, i_id i, pl)]\<rparr>
      in case platform w p (i_id i) (length (attempts w)) of
           Some err \<Rightarrow> (Some err, w')
         | None \<Rightarrow> (None, if p = reply then w'\<lparr>replied := insert (i_id i) (replied w')\<rparr> else w'))"

definition safeReply ::
  "interaction \<Rightarrow> string \<Rightarrow> bool \<Rightarrow> string list option \<Rightarrow> button list option
     \<Rightarrow> string list option \<Rightarrow> world \<Rightarrow> outcome" where
  "safeReply i content' ephemeral' embeds' components' files' w =
     (let now = clock w;
          threeMinutes = 3 * 60 * 1000
      in if now - createdTimestamp i > threeMinutes
         then (Some (InteractionError ''Interaction is older than 3 minutes'' (i_id i) expired), w)
         else
           let pl = \<lparr>content = (if content' \<noteq> [] then Some content' else None),
                     ephemeral = ephemeral',
                     embeds = embeds',
                     components = components',
                     files = files'\<rparr>;
               tried =
                 (if i_id i \<notin> replied w \<and> i_id i \<notin> deferred w
                  then (case call reply i (Some pl) w of
                          (Some err, w1) \<Rightarrow> (Some err, w1)
                        | (None, w1) \<Rightarrow> call fetchReply i None w1)
                  else call followUp i (Some pl) w)
           in case tried of
                (Some err, w2) \<Rightarrow>
                  (Some (InteractionError
                           (''Failed to reply to interaction: '' @ template (message err))
                           (i_id i) failed), w2)
              | (None, w2) \<Rightarrow> (None, w2))"

text \<open>What the platform answers to the calls that \<open>safeReply\<close> makes from state \<open>w\<close>.\<close>

definition rejection :: "interaction \<Rightarrow> world \<Rightarrow> exn option" where
  "rejection i w =
     (let n = length (attempts w)
      in if i_id i \<notin> replied w \<and> i_id i \<notin> deferred w
         then (case platform w reply (i_id i) n of
                 Some err \<Rightarrow> Some err
               | None \<Rightarrow> platform w fetchReply (i_id i) (Suc n))
         else platform w followUp (i_id i) n)"

text \<open>
  An attached logger (\<open>ILogger\<close>) may itself throw, as \<open>TToolboxLogger.log\<close> does for an
  unknown level; \<open>this.logger?.log(...)\<close> does nothing when no logger is attached.
\<close>

type_synonym logger = "log_entry \<Rightarrow> exn option"

definition log :: "logger option \<Rightarrow> log_entry \<Rightarrow> world \<Rightarrow> outcome" where
  "log lg e w =
     (case lg of
        None \<Rightarrow> (None, w)
      | Some f \<Rightarrow> (f e, w\<lparr>logged := logged w @ [e]\<rparr>))"

section \<open>Duration formatting (utils/formatting.ts)\<close>

text \<open>
  Source: \<open>formatDuration\<close>, found in src/unnamed/part_001. Numbers print in decimal.
\<close>

definition digit :: "nat \<Rightarrow> char" where
  "digit d = ''0123456789'' ! d"

function decimal :: "nat \<Rightarrow> string" where
  "decimal n = (if n < 10 then [digit n] else decimal (n div 10) @ [digit (n mod 10)])"
  by pat_completeness auto
termination
  by (relation "measure id") auto

definition number_string :: "int \<Rightarrow> string" where
  "number_string n = (if n < 0 then ''-'' @ decimal (nat (- n)) else decimal (nat n))"

text \<open>The remainder operator \<open>%\<close> truncates towards zero: the sign is the dividend's.\<close>

definition rem :: "int \<Rightarrow> int \<Rightarrow> int" where
  "rem a b = (if a < 0 then - ((- a) mod b) else a mod b)"

definition join :: "string list \<Rightarrow> string" where
  "join parts = (case parts of [] \<Rightarrow> [] | p # ps \<Rightarrow> foldl (\<lambda>acc q. acc @ '' '' @ q) p ps)"

definition formatDuration :: "int \<Rightarrow> string" where
  "formatDuration ms =
     (let seconds = ms div 1000;
          hours = seconds div 3600;
          seconds = rem seconds 3600;
          minutes = seconds div 60;
          seconds = rem seconds 60;
          parts = [];
          parts = (if hours > 0 then parts @ [number_string hours @ ''h''] else parts);
          parts = (if minutes > 0 then parts @ [number_string minutes @ ''m''] else parts);
          parts = (if seconds > 0 \<or> length parts = 0
                   then parts @ [number_string seconds @ ''s''] else parts)
      in join parts)"

section \<open>Commands (classes/Command.class.ts)\<close>

text \<open>
  Source: the class \<open>Command\<close> in src/src/classes/Command.class.ts.

  The descriptor that \<open>toJSON\<close> exports. The builder's own validation of names belongs to
  the library and is left out; \<open>customize\<close> edits the descriptor.
\<close>

record descriptor =
  d_name :: string
  d_description :: string
  default_member_permissions :: "int option"
  d_options :: "string list"

text \<open>
  A command: the abstract members that a subclass fills in, the optional cooldown and
  logger, the validation hook (by default \<open>null\<close> for every interaction) and the \<open>run\<close>
  handler, which may do anything to the state outside and may throw any value. The
  \<open>client\<close> argument is only passed through to \<open>run\<close> and is part of the handler here.
\<close>

record command =
  c_name :: string
  c_description :: string
  guildOnly :: bool
  permissionLevel :: PermissionLevel
  cooldown :: "int option"
  c_logger :: "logger option"
  additionalValidation :: "interaction \<Rightarrow> string option"
  run :: "interaction \<Rightarrow> world \<Rightarrow> thrown option \<times> world"
  customize :: "(descriptor \<Rightarrow> descriptor) option"

text \<open>
  \<open>validate\<close>: \<open>!interaction.guildId\<close> holds for \<open>null\<close> and for the empty string; the
  cooldown check reads the clock and updates the tracker.
\<close>

definition validate :: "command \<Rightarrow> interaction \<Rightarrow> world \<Rightarrow> string option \<times> world" where
  "validate c i w =
     (if guildOnly c \<and> (guildId i = None \<or> guildId i = Some [])
      then (Some ''This command can only be used in a server.'', w)
      else
        let (secondsRemaining, tr) =
              checkCooldown (c_name c) (cooldown c) (userId i) (clock w) (tracker w);
            w' = w\<lparr>tracker := tr\<rparr>
        in if secondsRemaining > 0
           then (Some (''You need to wait '' @ formatDuration secondsRemaining
                         @ '' before using this command again.''), w')
           else (additionalValidation c i, w'))"

text \<open>The info record of a successful execution, shared with the subcommand groups.\<close>

definition executed_entry :: "string \<Rightarrow> string \<Rightarrow> interaction \<Rightarrow> log_entry" where
  "executed_entry commandName scope i =
     \<lparr>l_message = commandName @ '' ''
         @ (case subcommand i of
              Some subcommandName \<Rightarrow>
                if subcommandName \<noteq> [] then ''('' @ subcommandName @ '') '' else []
            | None \<Rightarrow> [])
         @ ''command executed'',
      l_level = ''info'', l_scope = scope, logToConsole = False\<rparr>"

text \<open>
  The error record of \<open>Command.safeExecute\<close>, for the text that the template
  \<open>`${err.message ?? err}`\<close> gave, mirrored to the console.
\<close>

definition error_entry :: "string \<Rightarrow> string \<Rightarrow> log_entry" where
  "error_entry scope text' =
     \<lparr>l_message = ''An Error occurred: '' @ text',
      l_level = ''error'', l_scope = scope, logToConsole = True\<rparr>"

text \<open>
  \<open>safeExecute\<close>: the \<open>try\<close> block runs \<open>fn\<close> and writes the info record; whatever either
  throws is caught. In the \<open>catch\<close> block, \<open>this.logger?.log(...)\<close> evaluates its arguments
  only when a logger is attached: then the template is evaluated, which may itself throw,
  and the logger is called, which may throw too. After that the block returns the result
  of \<open>safeReply\<close> with the fixed text. Nothing catches what the \<open>catch\<close> block throws. A
  logger throws error objects, as \<open>TToolboxLogger\<close> does.
\<close>

definition Command_safeExecute ::
  "command \<Rightarrow> string \<Rightarrow> interaction \<Rightarrow> (world \<Rightarrow> thrown option \<times> world) \<Rightarrow> world
     \<Rightarrow> outcome" where
  "Command_safeExecute c commandName i fn w =
     (let scope = commandName @ ''_EXECUTION'';
          tried =
            (case fn w of
               (Some err, w1) \<Rightarrow> (Some err, w1)
             | (None, w1) \<Rightarrow>
                 (case log (c_logger c) (executed_entry commandName scope i) w1 of
                    (Some e, w2) \<Rightarrow> (Some (Obj e), w2)
                  | (None, w2) \<Rightarrow> (None, w2)))
      in case tried of
           (None, w2) \<Rightarrow> (None, w2)
         | (Some err, w2) \<Rightarrow>
             (case c_logger c of
                None \<Rightarrow> safeReply i ''An unexpected error occurred.'' False None None None w2
              | Some f \<Rightarrow>
                  (case describe err of
                     Inl e \<Rightarrow> (Some e, w2)
                   | Inr text' \<Rightarrow>
                       (case log (Some f) (error_entry scope text') w2 of
                          (Some err', w3) \<Rightarrow> (Some err', w3)
                        | (None, w3) \<Rightarrow>
                            safeReply i ''An unexpected error occurred.'' False None None None w3))))"

text \<open>
  The function that \<open>execute\<close> passes to \<open>safeExecute\<close>: validation, then either the
  private reply with the validation message (\<open>if (error)\<close> is false for \<open>null\<close> and for the
  empty string) or the handler.
\<close>

definition Command_body :: "command \<Rightarrow> interaction \<Rightarrow> world \<Rightarrow> thrown option \<times> world" where
  "Command_body c i w =
     (case validate c i w of
        (Some error, w1) \<Rightarrow>
          if error \<noteq> []
          then (case safeReply i error True None None None w1 of
                  (Some e, w2) \<Rightarrow> (Some (Obj e), w2)
                | (None, w2) \<Rightarrow> (None, w2))
          else run c i w1
      | (None, w1) \<Rightarrow> run c i w1)"

definition Command_execute :: "command \<Rightarrow> interaction \<Rightarrow> world \<Rightarrow> outcome" where
  "Command_execute c i w = Command_safeExecute c (c_name c) i (Command_body c i) w"

definition Command_toJSON :: "(string \<Rightarrow> int) \<Rightarrow> command \<Rightarrow> exn + descriptor" where
  "Command_toJSON bits c =
     (case getPermissionsForLevel bits (permissionLevel c) of
        Inl e \<Rightarrow> Inl e
      | Inr p \<Rightarrow>
          let builder = \<lparr>d_name = c_name c, d_description = c_description c,
                         default_member_permissions = p, d_options = []\<rparr>
          in Inr (case customize c of Some f \<Rightarrow> f builder | None \<Rightarrow> builder))"

section \<open>Subcommand groups (classes/SubcommandGroup.class.ts)\<close>

text \<open>Source: the class \<open>SubcommandGroup\<close> in src/src/classes/SubcommandGroup.class.ts.\<close>

record subcommandGroup =
  g_name :: string
  g_description :: string
  subcommands :: "string \<rightharpoonup> command"
  g_logger :: "logger option"

text \<open>The group's error record is \<open>'An Error occured' + err\<close>.\<close>

definition SubcommandGroup_safeExecute ::
  "subcommandGroup \<Rightarrow> string \<Rightarrow> string \<Rightarrow> interaction \<Rightarrow> (world \<Rightarrow> outcome) \<Rightarrow> world \<Rightarrow> outcome" where
  "SubcommandGroup_safeExecute g commandName scope i fn w =
     (let tried =
            (case fn w of
               (Some err, w1) \<Rightarrow> (Some err, w1)
             | (None, w1) \<Rightarrow> log (g_logger g) (executed_entry commandName scope i) w1)
      in case tried of
           (None, w2) \<Rightarrow> (None, w2)
         | (Some err, w2) \<Rightarrow>
             (case log (g_logger g)
                     \<lparr>l_message = ''An Error occured'' @ toString err, l_level = ''error'',
                      l_scope = scope, logToConsole = True\<rparr> w2 of
                (Some err', w3) \<Rightarrow> (Some err', w3)
              | (None, w3) \<Rightarrow> safeReply i ''An unexpected error occurred.'' False None None None w3))"

text \<open>
  \<open>execute\<close>: \<open>interaction.options.getSubcommand()\<close> is the library's required getter,
  which throws a \<open>TypeError\<close> when no subcommand was selected. The lookup and the
  \<open>throw\<close> for an unknown name come before \<open>safeExecute\<close>.
\<close>

definition SubcommandGroup_execute :: "subcommandGroup \<Rightarrow> interaction \<Rightarrow> world \<Rightarrow> outcome" where
  "SubcommandGroup_execute g i w =
     (case (case subcommand i of
              None \<Rightarrow> Inl (TypeError ''No subcommand specified for interaction.'')
            | Some s \<Rightarrow> if s = [] then Inl (TypeError ''No subcommand specified for interaction.'')
                        else Inr s) of
        Inl e \<Rightarrow> (Some e, w)
      | Inr subcommandName \<Rightarrow>
          (case subcommands g subcommandName of
             None \<Rightarrow> (Some (Error (''Unknown subcommand: '' @ subcommandName)), w)
           | Some sub \<Rightarrow>
               let scope = c_name sub @ ''_EXECUTION''
               in SubcommandGroup_safeExecute g (g_name g) scope i (Command_execute sub i) w))"

section \<open>Command manager (classes/CommandManager.class.ts)\<close>

text \<open>
  Source: the class \<open>CommandManager\<close>, found in src/unnamed/part_005. Its registry holds
  commands and groups alike.
\<close>

datatype entry = Cmd command | Grp subcommandGroup

definition entry_name :: "entry \<Rightarrow> string" where
  "entry_name e = (case e of Cmd c \<Rightarrow> c_name c | Grp g \<Rightarrow> g_name g)"

definition setLogger :: "logger \<Rightarrow> entry \<Rightarrow> entry" where
  "setLogger lg e =
     (case e of
        Cmd c \<Rightarrow> Cmd (c\<lparr>c_logger := Some lg\<rparr>)
      | Grp g \<Rightarrow> Grp (g\<lparr>g_logger := Some lg\<rparr>))"

definition entry_execute :: "entry \<Rightarrow> interaction \<Rightarrow> world \<Rightarrow> outcome" where
  "entry_execute e i w =
     (case e of Cmd c \<Rightarrow> Command_execute c i w | Grp g \<Rightarrow> SubcommandGroup_execute g i w)"

record commandManager =
  commands :: "string \<rightharpoonup> entry"
  m_logger :: "logger option"

definition register :: "entry \<Rightarrow> commandManager \<Rightarrow> commandManager" where
  "register command m =
     (let command = (case m_logger m of Some lg \<Rightarrow> setLogger lg command | None \<Rightarrow> command)
      in m\<lparr>commands := (commands m)(entry_name command \<mapsto> command)\<rparr>)"

definition executeCommand :: "commandManager \<Rightarrow> string \<Rightarrow> interaction \<Rightarrow> world \<Rightarrow> outcome" where
  "executeCommand m commandName i w =
     (case commands m commandName of
        None \<Rightarrow> (Some (Error (''Command not found: '' @ commandName)), w)
      | Some command \<Rightarrow> entry_execute command i w)"

section \<open>Modal registry (classes/ModalManager.class.ts, types/modal.ts)\<close>

text \<open>
  Source: the class \<open>ModalManager\<close>, found in src/src/classes/Command.class.ts after the
  class \<open>Command\<close>, and the types \<open>Modal\<close> and \<open>ModalField\<close> in src/src/types/modal.ts.
\<close>

datatype TextInputStyle = Short | Paragraph

record modalField =
  f_name :: string
  f_style :: TextInputStyle
  f_customId :: string
  placeholder :: "string option"
  required :: "bool option"
  minLength :: "int option"
  maxLength :: "int option"
  f_value :: "string option"

text \<open>
  A modal definition. Its submit handler may do anything to the state outside and may
  throw; the registry itself is not within its reach here.
\<close>

record modal =
  md_id :: string
  md_ephemeral :: bool
  md_title :: string
  md_fields :: "modalField list"
  onSubmit :: "interaction \<Rightarrow> world \<Rightarrow> outcome"

text \<open>The dialog that \<open>buildAndRegister\<close> returns: one text input per field.\<close>

record textInput =
  t_customId :: string
  t_label :: string
  t_style :: TextInputStyle
  t_required :: bool
  t_placeholder :: "string option"
  t_minLength :: "int option"
  t_maxLength :: "int option"
  t_value :: "string option"

record modalBuilder =
  mb_customId :: string
  mb_title :: string
  mb_components :: "textInput list"

type_synonym registry = "string \<rightharpoonup> modal"

text \<open>
  \<open>if (field.placeholder)\<close> and \<open>if (field.value)\<close> skip \<open>undefined\<close> and the empty string,
  \<open>if (field.minLength)\<close> skips \<open>undefined\<close> and \<open>0\<close>; \<open>field.required ?? true\<close>.
\<close>

definition nonempty :: "string option \<Rightarrow> string option" where
  "nonempty s = (case s of Some x \<Rightarrow> if x \<noteq> [] then Some x else None | None \<Rightarrow> None)"

definition nonzero :: "int option \<Rightarrow> int option" where
  "nonzero n = (case n of Some x \<Rightarrow> if x \<noteq> 0 then Some x else None | None \<Rightarrow> None)"

definition buildAndRegister :: "modal \<Rightarrow> registry \<Rightarrow> modalBuilder \<times> registry" where
  "buildAndRegister data modals =
     (\<lparr>mb_customId = md_id data, mb_title = md_title data,
       mb_components =
         map (\<lambda>field.
                \<lparr>t_customId = f_customId field, t_label = f_name field, t_style = f_style field,
                 t_required = (case required field of Some r \<Rightarrow> r | None \<Rightarrow> True),
                 t_placeholder = nonempty (placeholder field),
                 t_minLength = nonzero (minLength field),
                 t_maxLength = nonzero (maxLength field),
                 t_value = nonempty (f_value field)\<rparr>)
             (md_fields data)\<rparr>,
      modals(md_id data \<mapsto> data))"

text \<open>\<open>id.split(':')[0]\<close>: the part of the id before its first colon, the whole id without one.\<close>

definition baseId :: "string \<Rightarrow> string" where
  "baseId ident = takeWhile (\<lambda>ch. ch \<noteq> CHR '':'') ident"

definition ModalManager_get :: "registry \<Rightarrow> string \<Rightarrow> modal option" where
  "ModalManager_get modals ident =
     (case modals ident of
        Some modal \<Rightarrow> Some modal
      | None \<Rightarrow> modals (baseId ident))"

definition remove :: "registry \<Rightarrow> string \<Rightarrow> bool \<times> registry" where
  "remove modals ident = (modals ident \<noteq> None, modals(ident := None))"

definition has :: "registry \<Rightarrow> string \<Rightarrow> bool" where
  "has modals ident \<longleftrightarrow> modals ident \<noteq> None \<or> modals (baseId ident) \<noteq> None"

definition handleSubmit :: "registry \<Rightarrow> interaction \<Rightarrow> world \<Rightarrow> outcome \<times> registry" where
  "handleSubmit modals i w =
     (case ModalManager_get modals (customId i) of
        None \<Rightarrow> ((Some (Error (''Modal not found: '' @ customId i)), w), modals)
      | Some modal \<Rightarrow>
          (case onSubmit modal i w of
             (Some err, w1) \<Rightarrow> ((Some err, w1), modals)
           | (None, w1) \<Rightarrow>
               ((None, w1),
                if md_ephemeral modal then snd (remove modals (customId i)) else modals)))"

section \<open>Paginated browser (utils/PaginatedEmbed.class.ts, utils/embeds.ts)\<close>

text \<open>
  Source: the class \<open>PaginatedEmbed\<close> in src/src/utils/PaginatedEmbed.class.ts and the
  button helpers of utils/embeds.ts, found at the end of src/src/utils/miliseconds.ts.
\<close>

text \<open>What the custom-button handler resolves to.\<close>

record 'a customResult =
  handled :: bool
  newItems :: "'a list option"
  stopCollector :: "bool option"

text \<open>
  The handler is asynchronous caller code: it may do anything to the state outside, and
  it may throw. It is given the list by value: a handler that edits the session's array
  in place instead of returning \<open>newItems\<close> is outside this model.
\<close>

record 'a PaginatedEmbedOptions =
  extraButtons :: "button list option"
  timeout :: "int option"
  onCustomButton ::
    "(string \<Rightarrow> int \<Rightarrow> 'a list \<Rightarrow> world \<Rightarrow> (exn + 'a customResult) \<times> world) option"

text \<open>The component collector of the library: its time limit and whether it has ended.\<close>

record collector =
  time :: int
  ended :: bool

record 'a PaginatedEmbed =
  index :: int
  items :: "'a list"
  collector :: "collector option"
  p_interaction :: interaction
  buildEmbed :: "'a option \<Rightarrow> int \<Rightarrow> int \<Rightarrow> string list"
  options :: "'a PaginatedEmbedOptions option"

definition PaginatedEmbed_new ::
  "interaction \<Rightarrow> 'a list \<Rightarrow> ('a option \<Rightarrow> int \<Rightarrow> int \<Rightarrow> string list)
     \<Rightarrow> 'a PaginatedEmbedOptions option \<Rightarrow> 'a PaginatedEmbed" where
  "PaginatedEmbed_new i its build opts =
     \<lparr>index = 0, items = its, collector = None, p_interaction = i, buildEmbed = build,
      options = opts\<rparr>"

text \<open>\<open>this.items[this.index]\<close>: \<open>undefined\<close> outside the array.\<close>

definition item_at :: "'a list \<Rightarrow> int \<Rightarrow> 'a option" where
  "item_at xs n = (if 0 \<le> n \<and> n < int (length xs) then Some (xs ! nat n) else None)"

text \<open>
  \<open>createButton\<close>, as far as a button is modelled: the custom id defaults to the type.
  \<open>createPaginationButtons\<close> disables \<open>prev\<close> at index \<open>0\<close> and \<open>next\<close> at \<open>total - 1\<close>;
  \<open>createButtonsRow\<close> with location \<open>embrace\<close> puts the extra buttons between the two.
\<close>

definition createButton :: "string \<Rightarrow> bool \<Rightarrow> button" where
  "createButton type disabled = \<lparr>b_customId = type, b_disabled = disabled\<rparr>"

definition createPaginationButtons :: "int \<Rightarrow> int \<Rightarrow> button list" where
  "createPaginationButtons idx total' =
     [createButton ''prev'' (idx = 0), createButton ''next'' (idx = total' - 1)]"

definition createButtonsRow :: "button list \<Rightarrow> button list \<Rightarrow> button list" where
  "createButtonsRow normalButtons pagination =
     (case pagination of
        [first, second] \<Rightarrow> first # normalButtons @ [second]
      | _ \<Rightarrow> normalButtons)"

definition buildButtons :: "'a PaginatedEmbed \<Rightarrow> button list" where
  "buildButtons p =
     (let paginationButtons = createPaginationButtons (index p) (int (length (items p)));
          extra = (case options p of
                     Some opts \<Rightarrow> (case extraButtons opts of Some bs \<Rightarrow> bs | None \<Rightarrow> [])
                   | None \<Rightarrow> [])
      in createButtonsRow extra paginationButtons)"

definition view :: "'a PaginatedEmbed \<Rightarrow> string list" where
  "view p = buildEmbed p (item_at (items p) (index p)) (index p) (int (length (items p)))"

text \<open>\<open>btnInteraction.update({ embeds, components })\<close> with the current page.\<close>

definition show_page :: "'a PaginatedEmbed \<Rightarrow> interaction \<Rightarrow> world \<Rightarrow> outcome" where
  "show_page p btn w =
     call update btn
       (Some \<lparr>content = None, ephemeral = False, embeds = Some (view p),
              components = Some (buildButtons p), files = None\<rparr>) w"

text \<open>
  The \<open>end\<close> listener clears the controls of the original message; a rejected
  \<open>editReply\<close> becomes the typed error.
\<close>

definition on_end :: "'a PaginatedEmbed \<Rightarrow> world \<Rightarrow> outcome" where
  "on_end p w =
     (case call editReply (p_interaction p)
             (Some \<lparr>content = None, ephemeral = False, embeds = None, components = Some [],
                    files = None\<rparr>) w of
        (Some err, w1) \<Rightarrow>
          (Some (InteractionError (''Failed to clear components: '' @ template (message err))
                   (i_id (p_interaction p)) failed), w1)
      | (None, w1) \<Rightarrow> (None, w1))"

text \<open>
  \<open>stop\<close>: \<open>collector.stop()\<close> when a collector exists. The library's collector ignores
  a second stop; on the first it marks itself ended and emits \<open>end\<close>, which starts the
  listener above. What the listener throws is not thrown to the caller of \<open>stop\<close>.
\<close>

definition stop :: "'a PaginatedEmbed \<Rightarrow> world \<Rightarrow> 'a PaginatedEmbed \<times> world" where
  "stop p w =
     (case collector p of
        None \<Rightarrow> (p, w)
      | Some c \<Rightarrow>
          if ended c then (p, w)
          else (p\<lparr>collector := Some (c\<lparr>ended := True\<rparr>)\<rparr>, snd (on_end p w)))"

text \<open>
  \<open>start\<close>: the first page is sent with \<open>safeReply\<close>, then the reply is fetched and the
  collector created on it, with the configured time limit or two minutes.
\<close>

definition start :: "'a PaginatedEmbed \<Rightarrow> world \<Rightarrow> outcome \<times> 'a PaginatedEmbed" where
  "start p w =
     (case safeReply (p_interaction p) [] False (Some (view p)) (Some (buildButtons p)) None w of
        (Some err, w1) \<Rightarrow> ((Some err, w1), p)
      | (None, w1) \<Rightarrow>
          (case call fetchReply (p_interaction p) None w1 of
             (Some err, w2) \<Rightarrow> ((Some err, w2), p)
           | (None, w2) \<Rightarrow>
               ((None, w2),
                p\<lparr>collector :=
                    Some \<lparr>time = (case (case options p of Some opts \<Rightarrow> timeout opts | None \<Rightarrow> None) of
                                    Some t \<Rightarrow> t
                                  | None \<Rightarrow> 60000 * 2),
                          ended = False\<rparr>\<rparr>)))"

text \<open>The built-in pagination: the \<open>switch\<close> on the action, then the update.\<close>

definition paginate :: "'a PaginatedEmbed \<Rightarrow> interaction \<Rightarrow> world \<Rightarrow> outcome \<times> 'a PaginatedEmbed" where
  "paginate p btn w =
     (let action = customId btn
      in if action = ''prev''
         then (let p' = p\<lparr>index := max 0 (index p - 1)\<rparr> in (show_page p' btn w, p'))
         else if action = ''next''
         then (let p' = p\<lparr>index := min (int (length (items p)) - 1) (index p + 1)\<rparr>
               in (show_page p' btn w, p'))
         else ((None, w), p))"

text \<open>
  The \<open>collect\<close> listener. \<open>if (result.newItems)\<close> is true for every array, the empty one
  included, and false for \<open>undefined\<close>; the stop test sits inside that branch.
\<close>

definition collect :: "'a PaginatedEmbed \<Rightarrow> interaction \<Rightarrow> world \<Rightarrow> outcome \<times> 'a PaginatedEmbed" where
  "collect p btn w =
     (if userId btn \<noteq> userId (p_interaction p)
      then (safeReply btn ''You cannot use this button.'' True None None None w, p)
      else
        let action = customId btn
        in case (case options p of Some opts \<Rightarrow> onCustomButton opts | None \<Rightarrow> None) of
             None \<Rightarrow> paginate p btn w
           | Some handler \<Rightarrow>
               (case handler action (index p) (items p) w of
                  (Inl err, w1) \<Rightarrow> ((Some err, w1), p)
                | (Inr result, w1) \<Rightarrow>
                    if handled result
                    then
                      (case newItems result of
                         Some new \<Rightarrow>
                           let p1 = p\<lparr>items := new,
                                      index := min (index p) (int (length new) - 1)\<rparr>
                           in if length new = 0 \<or> stopCollector result = Some True
                              then (case stop p1 w1 of (p2, w2) \<Rightarrow> ((None, w2), p2))
                              else if action \<noteq> ''delete''
                              then (show_page p1 btn w1, p1)
                              else ((None, w1), p1)
                       | None \<Rightarrow>
                           if action \<noteq> ''delete''
                           then (show_page p btn w1, p)
                           else ((None, w1), p))
                    else paginate p btn w1))"

text \<open>
  A session is alive while its collector exists and has not ended. The collector hands
  a click to the listener only then; when its time is up it stops itself.
\<close>

definition alive :: "'a PaginatedEmbed \<Rightarrow> bool" where
  "alive p = (case collector p of Some c \<Rightarrow> \<not> ended c | None \<Rightarrow> False)"

datatype event = Click interaction | TimeUp

definition deliver :: "'a PaginatedEmbed \<Rightarrow> event \<Rightarrow> world \<Rightarrow> outcome \<times> 'a PaginatedEmbed" where
  "deliver p ev w =
     (case ev of
        Click btn \<Rightarrow> if alive p then collect p btn w else ((None, w), p)
      | TimeUp \<Rightarrow> (case stop p w of (p', w') \<Rightarrow> ((None, w'), p')))"

text \<open>
  A run of events. What a listener throws is an unhandled rejection: it does not stop
  the session, and the next event finds the state as the listener left it.
\<close>

fun events :: "'a PaginatedEmbed \<Rightarrow> event list \<Rightarrow> world \<Rightarrow> 'a PaginatedEmbed \<times> world" where
  "events p [] w = (p, w)"
| "events p (ev # evs) w = (case deliver p ev w of ((_, w'), p') \<Rightarrow> events p' evs w')"

text \<open>The index addresses an item of the list.\<close>

definition in_range :: "'a PaginatedEmbed \<Rightarrow> bool" where
  "in_range p \<longleftrightarrow> 0 \<le> index p \<and> index p < int (length (items p))"

text \<open>
  A click is left to the built-in pagination when no custom handler is configured or
  the handler reports it as not handled.
\<close>

definition unhandled :: "'a PaginatedEmbed \<Rightarrow> interaction \<Rightarrow> world \<Rightarrow> bool" where
  "unhandled p btn w =
     (case (case options p of Some opts \<Rightarrow> onCustomButton opts | None \<Rightarrow> None) of
        None \<Rightarrow> True
      | Some handler \<Rightarrow>
          (case fst (handler (customId btn) (index p) (items p) w) of
             Inl err \<Rightarrow> False
           | Inr result \<Rightarrow> \<not> handled result))"

section \<open>Example values\<close>

text \<open>
  Concrete inputs for the closed instances below: an invocation by user \<open>U1\<close>, a state
  in which the platform accepts every call and one in which it rejects \<open>reply\<close>, a
  command whose handler throws, and the group \<open>admin\<close> with the single child \<open>ban\<close>.
\<close>

definition ex_interaction :: interaction where
  "ex_interaction =
     \<lparr>i_id = ''42'', createdTimestamp = 0, userId = ''U1'', guildId = Some ''G1'',
      subcommand = None, customId = []\<rparr>"

text \<open>A button click or modal submission by the same user, with the given custom id.\<close>

definition ex_event :: "string \<Rightarrow> interaction" where
  "ex_event ident =
     \<lparr>i_id = ''43'', createdTimestamp = 500, userId = ''U1'', guildId = Some ''G1'',
      subcommand = None, customId = ident\<rparr>"

definition ex_world :: world where
  "ex_world =
     \<lparr>clock = 1000, tracker = Map.empty, replied = {}, deferred = {}, attempts = [],
      logged = [], platform = (\<lambda>_ _ _. None)\<rparr>"



definition ex_ban :: command where
  "ex_ban =
     \<lparr>c_name = ''ban'', c_description = ''Ban a member'', guildOnly = True,
      permissionLevel = Admin, cooldown = None, c_logger = None,
      additionalValidation = (\<lambda>_. None),
      run = (\<lambda>_ w. (None, w)),
      customize = None\<rparr>"

definition ex_admin :: subcommandGroup where
  "ex_admin =
     \<lparr>g_name = ''admin'', g_description = ''Moderation'',
      subcommands = [''ban'' \<mapsto> ex_ban], g_logger = None\<rparr>"

text \<open>An ephemeral edit dialog registered under the base id \<open>edit-x\<close>.\<close>

definition ex_edit :: modal where
  "ex_edit =
     \<lparr>md_id = ''edit-x'', md_ephemeral = True, md_title = ''Edit'', md_fields = [],
      onSubmit = (\<lambda>_ w. (None, w))\<rparr>"

text \<open>
  A browser over three items whose custom handler handles \<open>close\<close> by asking for the
  session to stop, without a replacement list, and \<open>clear\<close> by replacing the list with
  the empty one; every other action is left to the built-in pagination.
\<close>

definition ex_handler :: "string \<Rightarrow> int \<Rightarrow> string list \<Rightarrow> world \<Rightarrow> (exn + string customResult) \<times> world" where
  "ex_handler action idx its w =
     (if action = ''close''
      then (Inr \<lparr>handled = True, newItems = None, stopCollector = Some True\<rparr>, w)
      else if action = ''clear''
      then (Inr \<lparr>handled = True, newItems = Some [], stopCollector = None\<rparr>, w)
      else (Inr \<lparr>handled = False, newItems = None, stopCollector = None\<rparr>, w))"

definition ex_pages :: "string PaginatedEmbed" where
  "ex_pages =
     PaginatedEmbed_new ex_interaction [''a'', ''b'', ''c'']
       (\<lambda>item idx n. case item of Some s \<Rightarrow> [s] | None \<Rightarrow> [])
       (Some \<lparr>extraButtons = None, timeout = None, onCustomButton = Some ex_handler\<rparr>)"

text \<open>
  A browser started on the empty list, whose custom handler handles \<open>refresh\<close> by
  replacing the list with two items and leaves every other action to the built-in
  pagination.
\<close>

definition ex_refresh :: "string \<Rightarrow> int \<Rightarrow> string list \<Rightarrow> world \<Rightarrow> (exn + string customResult) \<times> world" where
  "ex_refresh action idx its w =
     (if action = ''refresh''
      then (Inr \<lparr>handled = True, newItems = Some [''x'', ''y''], stopCollector = None\<rparr>, w)
      else (Inr \<lparr>handled = False, newItems = None, stopCollector = None\<rparr>, w))"

definition ex_empty :: "string PaginatedEmbed" where
  "ex_empty =
     PaginatedEmbed_new ex_interaction []
       (\<lambda>item idx n. case item of Some s \<Rightarrow> [s] | None \<Rightarrow> [])
       (Some \<lparr>extraButtons = None, timeout = None, onCustomButton = Some ex_refresh\<rparr>)"

section \<open>Properties of the cooldown tracker\<close>

lemma bounded_empty: "bounded cd t Map.empty"
  by (simp add: bounded_def entry_def)

lemma bounded_mono: "bounded cd t tr \<Longrightarrow> t \<le> t' \<Longrightarrow> bounded cd t' tr"
  unfolding bounded_def by (meson add_right_mono order_trans)

lemma entry_checkCooldown:
  "entry (snd (checkCooldown c (Some D) u now tr)) c' u' =
     (if D = 0 \<or> c' \<noteq> c then entry tr c' u'
      else if u' = u then
        (case entry tr c u of
           Some e \<Rightarrow> if now < e \<and> e \<noteq> 0 then Some e else Some (now + D)
         | None \<Rightarrow> Some (now + D))
      else
        (case entry tr c u' of
           Some e \<Rightarrow> if e \<le> now then None else Some e
         | None \<Rightarrow> None))"
  by (simp add: checkCooldown_def entry_def sweep_def Let_def split: option.splits)

lemma fst_checkCooldown:
  "fst (checkCooldown c (Some D) u now tr) =
     (if D = 0 then 0
      else case entry tr c u of
             Some e \<Rightarrow> if now < e \<and> e \<noteq> 0 then e - now else 0
           | None \<Rightarrow> 0)"
  by (simp add: checkCooldown_def entry_def sweep_def Let_def split: option.splits)

lemma entry_empty: "entry Map.empty c u = None"
  by (simp add: entry_def)

lemma checkCooldown_None: "checkCooldown c None u now tr = (0, tr)"
  by (simp add: checkCooldown_def)

lemma bounded_checkCooldown:
  assumes "bounded cd t tr"
  shows "bounded cd t (snd (checkCooldown c (cd c) u t tr))"
proof (cases "cd c")
  case None
  then show ?thesis using assms by (simp add: checkCooldown_None)
next
  case (Some D)
  show ?thesis
    unfolding bounded_def
  proof (intro allI impI)
    fix c' u' e
    assume e: "entry (snd (checkCooldown c (cd c) u t tr)) c' u' = Some e"
    show "\<exists>D'. cd c' = Some D' \<and> e \<le> t + D'"
    proof (cases "entry tr c' u' = Some e")
      case True
      then show ?thesis using assms by (simp add: bounded_def)
    next
      case False
      with e Some have "c' = c" and "e = t + D"
        by (auto simp: entry_checkCooldown split: if_splits option.splits)
      then show ?thesis using Some by simp
    qed
  qed
qed

lemma bounded_calls:
  "bounded cd t0 tr \<Longrightarrow> sorted (t0 # map fst cs @ [now]) \<Longrightarrow> bounded cd now (calls cd cs tr)"
proof (induction cs arbitrary: t0 tr)
  case Nil
  then show ?case by (simp add: bounded_mono)
next
  case (Cons x cs)
  obtain t c u where x: "x = (t, c, u)" by (cases x)
  from Cons.prems(2) x have le: "t0 \<le> t" and srt: "sorted (t # map fst cs @ [now])"
    by simp_all
  have "bounded cd t tr" using Cons.prems(1) le by (rule bounded_mono)
  then have "bounded cd t (snd (checkCooldown c (cd c) u t tr))"
    by (rule bounded_checkCooldown)
  then show ?case using Cons.IH srt x by simp
qed

lemma entry_call_other:
  assumes "(c', u') \<noteq> (c, u)"
  shows "entry (snd (checkCooldown c' (cd c') u' t tr)) c u =
           (if c' = c \<and> cd c \<noteq> None \<and> cd c \<noteq> Some 0
            then (case entry tr c u of
                    Some e \<Rightarrow> if e \<le> t then None else Some e
                  | None \<Rightarrow> None)
            else entry tr c u)"
proof (cases "cd c'")
  case None
  then show ?thesis by (auto simp: checkCooldown_None)
next
  case (Some D')
  then show ?thesis using assms by (auto simp: entry_checkCooldown)
qed

lemma entry_calls_frame:
  assumes "\<forall>x \<in> set mid. (fst (snd x), snd (snd x)) \<noteq> (c, u)"
  shows "entry (calls cd mid tr) c u = None \<or> entry (calls cd mid tr) c u = entry tr c u"
  using assms
proof (induction mid arbitrary: tr)
  case Nil
  then show ?case by simp
next
  case (Cons x mid)
  obtain t c' u' where x: "x = (t, c', u')" by (cases x)
  let ?tr = "snd (checkCooldown c' (cd c') u' t tr)"
  from Cons.prems x have ne: "(c', u') \<noteq> (c, u)" by simp
  have step: "entry ?tr c u = None \<or> entry ?tr c u = entry tr c u"
    by (simp add: entry_call_other [OF ne] split: option.splits)
  from Cons.prems have "\<forall>x \<in> set mid. (fst (snd x), snd (snd x)) \<noteq> (c, u)" by simp
  then have "entry (calls cd mid ?tr) c u = None \<or> entry (calls cd mid ?tr) c u = entry ?tr c u"
    by (rule Cons.IH)
  with step show ?case unfolding x by auto
qed

lemma entry_calls_keep:
  assumes "\<forall>x \<in> set mid. (fst (snd x), snd (snd x)) \<noteq> (c, u)"
      and "\<forall>x \<in> set mid. fst x < e"
      and "entry tr c u = Some e"
  shows "entry (calls cd mid tr) c u = Some e"
  using assms
proof (induction mid arbitrary: tr)
  case Nil
  then show ?case by simp
next
  case (Cons x mid)
  obtain t c' u' where x: "x = (t, c', u')" by (cases x)
  let ?tr = "snd (checkCooldown c' (cd c') u' t tr)"
  from Cons.prems x have ne: "(c', u') \<noteq> (c, u)" and lt: "t < e" by simp_all
  have "entry ?tr c u = Some e"
    using lt Cons.prems(3) by (simp add: entry_call_other [OF ne])
  moreover from Cons.prems have "\<forall>x \<in> set mid. (fst (snd x), snd (snd x)) \<noteq> (c, u)"
    and "\<forall>x \<in> set mid. fst x < e" by simp_all
  ultimately have "entry (calls cd mid ?tr) c u = Some e"
    using Cons.IH by blast
  then show ?case unfolding x by simp
qed

text \<open>
  Claim C1. Let a command be configured with cooldown \<open>D > 0\<close>, and let the tracker be
  the result of any history of \<open>checkCooldown\<close> calls with non-decreasing, non-negative
  clock readings. A call at time \<open>now\<close> by a user who holds an unexpired entry \<open>e\<close> returns
  exactly \<open>e - now\<close>, which is positive and at most \<open>D\<close>, and leaves the entry as it is.
  A call by a user without an unexpired entry returns zero and stores \<open>now + D\<close>.
  Consequently, after a granted call at \<open>now\<close> and any calls by other users or for other
  commands in between, the user's next call at \<open>later\<close> is denied with remaining time
  \<open>now + D - later\<close> in \<open>(0, D]\<close> while \<open>later < now + D\<close>, and granted once
  \<open>now + D \<le> later\<close>.
\<close>

theorem checkCooldown_deny_then_grant:
  assumes hist: "sorted (0 # map fst cs @ [now])"
      and cd: "cd c = Some D"
      and D: "0 < D"
      and others: "\<forall>x \<in> set mid. (fst (snd x), snd (snd x)) \<noteq> (c, u)"
      and mid: "sorted (now # map fst mid @ [later])"
  shows "(let tr = calls cd cs Map.empty;
              r = checkCooldown c (Some D) u now tr;
              r' = checkCooldown c (Some D) u later (calls cd mid (snd r))
          in (case entry tr c u of
                Some e \<Rightarrow>
                  if now < e
                  then fst r = e - now \<and> 0 < fst r \<and> fst r \<le> D \<and> entry (snd r) c u = Some e
                  else fst r = 0 \<and> entry (snd r) c u = Some (now + D)
              | None \<Rightarrow> fst r = 0 \<and> entry (snd r) c u = Some (now + D))
             \<and> (fst r = 0 \<longrightarrow>
                    (if later < now + D
                     then fst r' = now + D - later \<and> 0 < fst r' \<and> fst r' \<le> D
                          \<and> entry (snd r') c u = Some (now + D)
                     else fst r' = 0 \<and> entry (snd r') c u = Some (later + D))))"
proof -
  let ?tr = "calls cd cs Map.empty"
  let ?r = "checkCooldown c (Some D) u now ?tr"
  let ?mid = "calls cd mid (snd ?r)"
  let ?r' = "checkCooldown c (Some D) u later ?mid"
  from hist have now0: "0 \<le> now"
    by (simp add: sorted_append)
  from mid have later: "now \<le> later"
    by (simp add: sorted_append)
  have bnd: "bounded cd now ?tr"
    using bounded_empty hist by (rule bounded_calls)
  have first: "case entry ?tr c u of
                 Some e \<Rightarrow>
                   if now < e
                   then fst ?r = e - now \<and> 0 < fst ?r \<and> fst ?r \<le> D \<and> entry (snd ?r) c u = Some e
                   else fst ?r = 0 \<and> entry (snd ?r) c u = Some (now + D)
               | None \<Rightarrow> fst ?r = 0 \<and> entry (snd ?r) c u = Some (now + D)"
  proof (cases "entry ?tr c u")
    case None
    then show ?thesis using D by (simp add: fst_checkCooldown entry_checkCooldown)
  next
    case (Some e)
    with bnd obtain D' where "cd c = Some D'" and "e \<le> now + D'"
      unfolding bounded_def by blast
    with cd have "e \<le> now + D" by simp
    then show ?thesis using Some D now0
      by (simp add: fst_checkCooldown entry_checkCooldown)
  qed
  have second: "if later < now + D
                then fst ?r' = now + D - later \<and> 0 < fst ?r' \<and> fst ?r' \<le> D
                     \<and> entry (snd ?r') c u = Some (now + D)
                else fst ?r' = 0 \<and> entry (snd ?r') c u = Some (later + D)"
    if granted: "fst ?r = 0"
  proof -
    have stored: "entry (snd ?r) c u = Some (now + D)"
      using granted D by (auto simp: fst_checkCooldown entry_checkCooldown split: option.splits if_splits)
    show ?thesis
    proof (cases "later < now + D")
      case True
      have "\<forall>x \<in> set mid. fst x \<le> later"
        using mid by (auto simp: sorted_append)
      with True have "\<forall>x \<in> set mid. fst x < now + D" by fastforce
      with others have "entry ?mid c u = Some (now + D)"
        using stored by (rule entry_calls_keep)
      then show ?thesis using True D now0 later
        by (simp add: fst_checkCooldown entry_checkCooldown)
    next
      case False
      from others have "entry ?mid c u = None \<or> entry ?mid c u = entry (snd ?r) c u"
        by (rule entry_calls_frame)
      with stored have "entry ?mid c u = None \<or> entry ?mid c u = Some (now + D)" by simp
      then show ?thesis using False D
        by (auto simp: fst_checkCooldown entry_checkCooldown)
    qed
  qed
  from first second show ?thesis unfolding Let_def by blast
qed

theorem checkCooldown_deny_then_grant_witness:
  "sorted (0 # map fst [(1000::int, ''slow'', ''U1'')] @ [7000])
   \<and> (0::int) < 5000
   \<and> (''slow'', ''U2'') \<noteq> (''slow'', ''U1'')
   \<and> sorted (7000 # map fst [(8000::int, ''slow'', ''U2'')] @ [9000])
   \<and> (let tr = calls (\<lambda>_. Some 5000) [(1000, ''slow'', ''U1'')] Map.empty;
            r = checkCooldown ''slow'' (Some 5000) ''U1'' 7000 tr;
            r' = checkCooldown ''slow'' (Some 5000) ''U1'' 9000
                   (calls (\<lambda>_. Some 5000) [(8000, ''slow'', ''U2'')] (snd r))
        in entry tr ''slow'' ''U1'' = Some 6000
           \<and> fst r = 0 \<and> entry (snd r) ''slow'' ''U1'' = Some 12000
           \<and> fst r' = 3000 \<and> entry (snd r') ''slow'' ''U1'' = Some 12000)"
proof -
  let ?cd = "\<lambda>_::string. Some (5000::int)"
  let ?tr = "calls ?cd [(1000, ''slow'', ''U1'')] Map.empty"
  have h1: "sorted (0 # map fst [(1000::int, ''slow'', ''U1'')] @ [7000])" by simp
  have h2: "?cd ''slow'' = Some 5000" by simp
  have h3: "(0::int) < 5000" by simp
  have h4: "\<forall>x \<in> set [(8000::int, ''slow'', ''U2'')].
              (fst (snd x), snd (snd x)) \<noteq> (''slow'', ''U1'')" by simp
  have h5: "sorted (7000 # map fst [(8000::int, ''slow'', ''U2'')] @ [9000])" by simp
  note t = checkCooldown_deny_then_grant [OF h1 h2 h3 h4 h5]
  have e: "entry ?tr ''slow'' ''U1'' = Some 6000"
    by (simp add: entry_checkCooldown entry_empty)
  have g: "fst (checkCooldown ''slow'' (Some 5000) ''U1'' 7000 ?tr) = 0"
    by (simp only: fst_checkCooldown e) simp
  from t e g h1 h3 h4 h5 show ?thesis
    by (simp add: Let_def)
qed

section \<open>Properties of permission resolution\<close>

lemma bit_foldl_or:
  "bit (foldl (\<lambda>prev b. prev OR b) (a::int) xs) n \<longleftrightarrow> bit a n \<or> (\<exists>x \<in> set xs. bit x n)"
  by (induction xs arbitrary: a) (auto simp: bit_or_iff)

lemma bit_bitfield:
  "bit (bitfield bits names) n \<longleftrightarrow> (\<exists>name \<in> set names. bit (bits name) n)"
  by (simp add: bitfield_def bit_foldl_or)

text \<open>
  Claim C7, as stated, fails: permission resolution is not total on the variant. A raw
  \<open>number\<close> that is not an integer, such as \<open>1.5\<close>, reaches \<open>BigInt(level)\<close>, which throws.
\<close>

theorem getPermissionsForLevel_not_total:
  "getPermissionsForLevel (\<lambda>_. 0) (Number (NonIntegral ''1.5''))
     = Inl (RangeError ''The number 1.5 cannot be converted to a BigInt because it is not an integer'')"
  by (simp add: getPermissionsForLevel_def BigInt_def)

text \<open>
  Claim C7, amended. Administrator-only resolves to the administrator bit of the flag
  table; owner-only and disabled resolve to \<open>0\<close>; a \<open>bigint\<close> and an integral \<open>number\<close> are
  passed through unchanged; a list of flag names resolves to the bitwise OR of the named
  flags (bit \<open>n\<close> is set exactly when some named flag has it); resolution throws exactly
  for a \<open>number\<close> that is not an integer; and the result is \<open>null\<close> exactly for the
  remaining values \<open>'user'\<close>, \<open>null\<close> and \<open>undefined\<close>.
\<close>

theorem getPermissionsForLevel_resolves:
  "getPermissionsForLevel bits Admin = Inr (Some (bits ''Administrator''))
   \<and> getPermissionsForLevel bits Owner = Inr (Some 0)
   \<and> getPermissionsForLevel bits Disabled = Inr (Some 0)
   \<and> getPermissionsForLevel bits (Bigint i) = Inr (Some i)
   \<and> getPermissionsForLevel bits (Number (Integral i)) = Inr (Some i)
   \<and> (\<exists>r. getPermissionsForLevel bits (Flags names) = Inr (Some r)
            \<and> (\<forall>n. bit r n \<longleftrightarrow> (\<exists>name \<in> set names. bit (bits name) n)))
   \<and> (isl (getPermissionsForLevel bits level) \<longleftrightarrow> (\<exists>s. level = Number (NonIntegral s)))
   \<and> (getPermissionsForLevel bits level = Inr None \<longleftrightarrow> level \<in> {User, Null, Undefined})"
proof -
  have named: "getPermissionsForLevel bits Admin = Inr (Some (bits ''Administrator''))"
    "getPermissionsForLevel bits Owner = Inr (Some 0)"
    "getPermissionsForLevel bits Disabled = Inr (Some 0)"
    by (simp_all add: getPermissionsForLevel_def)
  have raw: "getPermissionsForLevel bits (Bigint i) = Inr (Some i)"
    "getPermissionsForLevel bits (Number (Integral i)) = Inr (Some i)"
    by (simp_all add: getPermissionsForLevel_def BigInt_def)
  have flags: "\<exists>r. getPermissionsForLevel bits (Flags names) = Inr (Some r)
                 \<and> (\<forall>n. bit r n \<longleftrightarrow> (\<exists>name \<in> set names. bit (bits name) n))"
    by (simp add: getPermissionsForLevel_def bit_bitfield)
  have throws: "isl (getPermissionsForLevel bits level) \<longleftrightarrow> (\<exists>s. level = Number (NonIntegral s))"
  proof (cases level)
    case (Number n)
    then show ?thesis
      by (cases n) (simp_all add: getPermissionsForLevel_def BigInt_def)
  qed (simp_all add: getPermissionsForLevel_def)
  have none: "getPermissionsForLevel bits level = Inr None \<longleftrightarrow> level \<in> {User, Null, Undefined}"
  proof (cases level)
    case (Number n)
    then show ?thesis
      by (cases n) (simp_all add: getPermissionsForLevel_def BigInt_def)
  qed (simp_all add: getPermissionsForLevel_def)
  from named raw flags throws none show ?thesis by blast
qed

section \<open>Properties of safeReply\<close>

lemma attempts_call: "attempts (snd (call p i pl w)) = attempts w @ [(p, i_id i, pl)]"
  by (simp add: call_def Let_def split: option.splits)

lemma fst_call: "fst (call p i pl w) = platform w p (i_id i) (length (attempts w))"
  by (simp add: call_def Let_def split: option.splits)

lemma platform_call: "platform (snd (call p i pl w)) = platform w"
  by (simp add: call_def Let_def split: option.splits)

lemma call_cases:
  obtains (rejected) err w' where "call p i pl w = (Some err, w')"
      and "platform w p (i_id i) (length (attempts w)) = Some err"
      and "attempts w' = attempts w @ [(p, i_id i, pl)]" and "platform w' = platform w"
  | (accepted) w' where "call p i pl w = (None, w')"
      and "platform w p (i_id i) (length (attempts w)) = None"
      and "attempts w' = attempts w @ [(p, i_id i, pl)]" and "platform w' = platform w"
proof (cases "call p i pl w")
  case (Pair r w')
  have a: "attempts w' = attempts w @ [(p, i_id i, pl)]"
    using attempts_call [of p i pl w] Pair by simp
  have b: "platform w' = platform w"
    using platform_call [of p i pl w] Pair by simp
  have c: "r = platform w p (i_id i) (length (attempts w))"
    using fst_call [of p i pl w] Pair by simp
  show thesis
  proof (cases r)
    case None
    from Pair None have "call p i pl w = (None, w')" by simp
    moreover from c None have "platform w p (i_id i) (length (attempts w)) = None" by simp
    ultimately show thesis using a b by (rule accepted)
  next
    case (Some err)
    from Pair Some have "call p i pl w = (Some err, w')" by simp
    moreover from c Some have "platform w p (i_id i) (length (attempts w)) = Some err" by simp
    ultimately show thesis using a b by (rule rejected)
  qed
qed

lemma safeReply_expired:
  assumes "clock w - createdTimestamp i > 180000"
  shows "safeReply i c e em co f w
           = (Some (InteractionError ''Interaction is older than 3 minutes'' (i_id i) expired), w)"
  using assms by (simp add: safeReply_def Let_def)

lemma safeReply_in_time:
  assumes "clock w - createdTimestamp i \<le> 180000"
  shows "fst (safeReply i c e em co f w)
           = (case rejection i w of
                Some err \<Rightarrow>
                  Some (InteractionError
                          (''Failed to reply to interaction: '' @ template (message err))
                          (i_id i) failed)
              | None \<Rightarrow> None)"
    and "\<exists>more. attempts (snd (safeReply i c e em co f w))
            = attempts w
              @ (if i_id i \<notin> replied w \<and> i_id i \<notin> deferred w then reply else followUp,
                 i_id i,
                 Some \<lparr>content = (if c \<noteq> [] then Some c else None), ephemeral = e,
                       embeds = em, components = co, files = f\<rparr>) # more"
proof -
  let ?pl = "\<lparr>content = (if c \<noteq> [] then Some c else None), ephemeral = e,
              embeds = em, components = co, files = f\<rparr>"
  show "fst (safeReply i c e em co f w)
           = (case rejection i w of
                Some err \<Rightarrow>
                  Some (InteractionError
                          (''Failed to reply to interaction: '' @ template (message err))
                          (i_id i) failed)
              | None \<Rightarrow> None)"
  proof (cases "i_id i \<notin> replied w \<and> i_id i \<notin> deferred w")
    case fresh: True
    show ?thesis
    proof (cases rule: call_cases [of reply i "Some ?pl" w])
      case (rejected err w')
      then show ?thesis using assms fresh
        by (simp add: safeReply_def rejection_def Let_def)
    next
      case (accepted w')
      show ?thesis
      proof (cases rule: call_cases [of fetchReply i None w'])
        case (rejected err w'')
        then show ?thesis using assms fresh accepted
          by (simp add: safeReply_def rejection_def Let_def)
      next
        case r: (accepted w'')
        then show ?thesis using assms fresh accepted
          by (simp add: safeReply_def rejection_def Let_def)
      qed
    qed
  next
    case False
    then show ?thesis using assms
      by (cases rule: call_cases [of followUp i "Some ?pl" w])
         (auto simp: safeReply_def rejection_def Let_def)
  qed
  show "\<exists>more. attempts (snd (safeReply i c e em co f w))
            = attempts w
              @ (if i_id i \<notin> replied w \<and> i_id i \<notin> deferred w then reply else followUp,
                 i_id i, Some ?pl) # more"
  proof (cases "i_id i \<notin> replied w \<and> i_id i \<notin> deferred w")
    case fresh: True
    show ?thesis
    proof (cases rule: call_cases [of reply i "Some ?pl" w])
      case (rejected err w')
      then show ?thesis using assms fresh
        by (simp add: safeReply_def Let_def)
    next
      case (accepted w')
      then show ?thesis using assms fresh
        by (cases rule: call_cases [of fetchReply i None w'])
           (simp_all add: safeReply_def Let_def)
    qed
  next
    case False
    then show ?thesis using assms
      by (cases rule: call_cases [of followUp i "Some ?pl" w])
         (auto simp: safeReply_def Let_def)
  qed
qed

text \<open>
  Claim C9. \<open>safeReply\<close> checks the three-minute window first. When more than three
  minutes have passed since the interaction was created it throws the typed error with
  the interaction id and reason \<open>expired\<close> and leaves the state as it is: no primitive is
  called. Otherwise it calls \<open>reply\<close> (or \<open>followUp\<close> on an interaction already replied to
  or deferred) with the assembled payload, and it throws the typed error with the
  interaction id and reason \<open>failed\<close> exactly when the platform rejects one of the calls
  it makes; the message quotes the rejection's message.
\<close>

theorem safeReply_reply_window:
  "(if clock w - createdTimestamp i > 3 * 60 * 1000
    then safeReply i c e em co f w
           = (Some (InteractionError ''Interaction is older than 3 minutes'' (i_id i) expired), w)
    else fst (safeReply i c e em co f w)
           = (case rejection i w of
                Some err \<Rightarrow>
                  Some (InteractionError
                          (''Failed to reply to interaction: '' @ template (message err))
                          (i_id i) failed)
              | None \<Rightarrow> None)
         \<and> (\<exists>more. attempts (snd (safeReply i c e em co f w))
                = attempts w
                  @ (if i_id i \<notin> replied w \<and> i_id i \<notin> deferred w then reply else followUp,
                     i_id i,
                     Some \<lparr>content = (if c \<noteq> [] then Some c else None), ephemeral = e,
                           embeds = em, components = co, files = f\<rparr>) # more))"
proof (cases "clock w - createdTimestamp i > 180000")
  case True
  then show ?thesis by (simp add: safeReply_expired)
next
  case False
  then have "clock w - createdTimestamp i \<le> 180000" by simp
  from safeReply_in_time [OF this, of c e em co f] False show ?thesis by simp
qed

theorem safeReply_reply_window_witness:
  "safeReply \<lparr>i_id = ''42'', createdTimestamp = 0, userId = ''U1'', guildId = None,
              subcommand = None, customId = []\<rparr> ''Pong!'' False None None None
     \<lparr>clock = 180001, tracker = Map.empty, replied = {}, deferred = {}, attempts = [],
      logged = [], platform = (\<lambda>_ _ _. None)\<rparr>
   = (Some (InteractionError ''Interaction is older than 3 minutes'' ''42'' expired),
      \<lparr>clock = 180001, tracker = Map.empty, replied = {}, deferred = {}, attempts = [],
       logged = [], platform = (\<lambda>_ _ _. None)\<rparr>)
   \<and> fst (safeReply \<lparr>i_id = ''42'', createdTimestamp = 0, userId = ''U1'', guildId = None,
                   subcommand = None, customId = []\<rparr> ''Pong!'' False None None None
          \<lparr>clock = 180000, tracker = Map.empty, replied = {}, deferred = {}, attempts = [],
           logged = [], platform = (\<lambda>p _ _. if p = reply then Some (Error ''Unknown interaction'') else None)\<rparr>)
     = Some (InteractionError ''Failed to reply to interaction: Unknown interaction'' ''42'' failed)"
proof -
  let ?i = "\<lparr>i_id = ''42'', createdTimestamp = 0, userId = ''U1'', guildId = None,
             subcommand = None, customId = []\<rparr>"
  let ?late = "\<lparr>clock = 180001, tracker = Map.empty, replied = {}, deferred = {}, attempts = [],
                logged = [], platform = (\<lambda>_ _ _. None)\<rparr>"
  let ?down = "\<lparr>clock = 180000, tracker = Map.empty, replied = {}, deferred = {}, attempts = [],
                logged = [], platform = (\<lambda>p _ _. if p = reply then Some (Error ''Unknown interaction'') else None)\<rparr>"
  have "safeReply ?i ''Pong!'' False None None None ?late
          = (Some (InteractionError ''Interaction is older than 3 minutes'' ''42'' expired), ?late)"
    using safeReply_reply_window [of ?late ?i "''Pong!''" False None None None] by simp
  moreover have "fst (safeReply ?i ''Pong!'' False None None None ?down)
          = Some (InteractionError ''Failed to reply to interaction: Unknown interaction'' ''42'' failed)"
    using safeReply_reply_window [of ?down ?i "''Pong!''" False None None None]
    by (simp add: rejection_def)
  ultimately show ?thesis by simp
qed

section \<open>Properties of command execution and dispatch\<close>

lemma safeReply_outcome:
  "fst (safeReply i c e em co f w) = None
   \<or> (\<exists>m r. fst (safeReply i c e em co f w) = Some (InteractionError m (i_id i) r))"
proof (cases "clock w - createdTimestamp i > 180000")
  case True
  then show ?thesis by (simp add: safeReply_expired)
next
  case False
  then have "clock w - createdTimestamp i \<le> 180000" by simp
  from safeReply_in_time(1) [OF this, of c e em co f] show ?thesis
    by (cases "rejection i w") simp_all
qed






text \<open>
  Claim C8. Dispatching a name with no entry in the command manager throws the
  not-found error and leaves the state untouched: nothing is logged and no reply is
  attempted. A group asked for a subcommand that is not in its collection throws the
  unknown-subcommand error, before its own \<open>safeExecute\<close> wrapper, and the error passes
  unchanged through \<open>executeCommand\<close> when the group was dispatched by name. When the
  entry exists, dispatch is that entry's \<open>execute\<close>; for a group, the child's \<open>execute\<close>
  inside the group's wrapper.
\<close>

theorem dispatch_not_found_propagates:
  "(commands m name = None \<longrightarrow>
      executeCommand m name i w = (Some (Error (''Command not found: '' @ name)), w))
   \<and> (\<forall>e. commands m name = Some e \<longrightarrow> executeCommand m name i w = entry_execute e i w)
   \<and> (subcommand i = Some s \<and> s \<noteq> [] \<and> subcommands g s = None \<longrightarrow>
        SubcommandGroup_execute g i w = (Some (Error (''Unknown subcommand: '' @ s)), w)
        \<and> (commands m name = Some (Grp g) \<longrightarrow>
             executeCommand m name i w = (Some (Error (''Unknown subcommand: '' @ s)), w)))
   \<and> (\<forall>sub. subcommand i = Some s \<and> s \<noteq> [] \<and> subcommands g s = Some sub \<longrightarrow>
        SubcommandGroup_execute g i w
          = SubcommandGroup_safeExecute g (g_name g) (c_name sub @ ''_EXECUTION'') i
              (Command_execute sub i) w)"
  by (simp add: executeCommand_def entry_execute_def SubcommandGroup_execute_def)

theorem dispatch_not_found_propagates_witness:
  "executeCommand (register (Grp ex_admin) \<lparr>commands = Map.empty, m_logger = None\<rparr>) ''ping''
       (ex_interaction\<lparr>subcommand := Some ''kick''\<rparr>) ex_world
     = (Some (Error ''Command not found: ping''), ex_world)
   \<and> SubcommandGroup_execute ex_admin (ex_interaction\<lparr>subcommand := Some ''kick''\<rparr>) ex_world
     = (Some (Error ''Unknown subcommand: kick''), ex_world)
   \<and> executeCommand (register (Grp ex_admin) \<lparr>commands = Map.empty, m_logger = None\<rparr>) ''admin''
       (ex_interaction\<lparr>subcommand := Some ''kick''\<rparr>) ex_world
     = (Some (Error ''Unknown subcommand: kick''), ex_world)
   \<and> executeCommand (register (Grp ex_admin) \<lparr>commands = Map.empty, m_logger = None\<rparr>) ''admin''
       (ex_interaction\<lparr>subcommand := Some ''ban''\<rparr>) ex_world
     = SubcommandGroup_safeExecute ex_admin ''admin'' ''ban_EXECUTION''
         (ex_interaction\<lparr>subcommand := Some ''ban''\<rparr>)
         (Command_execute ex_ban (ex_interaction\<lparr>subcommand := Some ''ban''\<rparr>)) ex_world"
proof -
  let ?m = "register (Grp ex_admin) \<lparr>commands = Map.empty, m_logger = None\<rparr>"
  let ?kick = "ex_interaction\<lparr>subcommand := Some ''kick''\<rparr>"
  let ?ban = "ex_interaction\<lparr>subcommand := Some ''ban''\<rparr>"
  have reg: "commands ?m ''ping'' = None" "commands ?m ''admin'' = Some (Grp ex_admin)"
    by (simp_all add: register_def entry_name_def ex_admin_def)
  have kick: "subcommand ?kick = Some ''kick''" "''kick'' \<noteq> []"
    "subcommands ex_admin ''kick'' = None"
    by (simp_all add: ex_admin_def)
  have ban: "subcommand ?ban = Some ''ban''" "''ban'' \<noteq> []"
    "subcommands ex_admin ''ban'' = Some ex_ban"
    by (simp_all add: ex_admin_def)
  have names: "g_name ex_admin = ''admin''" "c_name ex_ban = ''ban''"
    by (simp_all add: ex_admin_def ex_ban_def)
  from dispatch_not_found_propagates [of ?m "''ping''" ?kick ex_world "''kick''" ex_admin]
    reg kick
  have first: "executeCommand ?m ''ping'' ?kick ex_world
                 = (Some (Error ''Command not found: ping''), ex_world)"
    and second: "SubcommandGroup_execute ex_admin ?kick ex_world
                 = (Some (Error ''Unknown subcommand: kick''), ex_world)"
    by simp_all
  from dispatch_not_found_propagates [of ?m "''admin''" ?kick ex_world "''kick''" ex_admin]
    reg kick
  have third: "executeCommand ?m ''admin'' ?kick ex_world
                 = (Some (Error ''Unknown subcommand: kick''), ex_world)"
    by (simp add: entry_execute_def)
  from dispatch_not_found_propagates [of ?m "''admin''" ?ban ex_world "''ban''" ex_admin]
    reg ban names
  have fourth: "executeCommand ?m ''admin'' ?ban ex_world
                 = SubcommandGroup_safeExecute ex_admin ''admin'' ''ban_EXECUTION'' ?ban
                     (Command_execute ex_ban ?ban) ex_world"
    by (simp add: entry_execute_def)
  from first second third fourth show ?thesis by simp
qed

text \<open>
  Claim C10. The named level \<open>'user'\<close> and an absent requirement (\<open>null\<close>, \<open>undefined\<close>) all
  resolve to \<open>null\<close>, whatever the flag table, so the descriptor that \<open>toJSON\<close> exports for
  a command of any of these levels carries no default member permission.
\<close>

theorem getPermissionsForLevel_user_unrestricted:
  "getPermissionsForLevel bits User = Inr None
   \<and> getPermissionsForLevel bits Null = Inr None
   \<and> getPermissionsForLevel bits Undefined = Inr None
   \<and> Command_toJSON bits (c\<lparr>permissionLevel := User, customize := None\<rparr>)
       = Inr \<lparr>d_name = c_name c, d_description = c_description c,
              default_member_permissions = None, d_options = []\<rparr>
   \<and> Command_toJSON bits (c\<lparr>permissionLevel := User, customize := None\<rparr>)
       = Command_toJSON bits (c\<lparr>permissionLevel := Null, customize := None\<rparr>)
   \<and> Command_toJSON bits (c\<lparr>permissionLevel := User, customize := None\<rparr>)
       = Command_toJSON bits (c\<lparr>permissionLevel := Undefined, customize := None\<rparr>)"
  by (simp add: getPermissionsForLevel_def Command_toJSON_def)

section \<open>Properties of the modal registry\<close>

lemma baseId_suffixed:
  assumes "CHR '':'' \<notin> set k"
  shows "baseId (k @ CHR '':'' # s) = k" and "baseId k = k"
  using assms by (induction k) (auto simp: baseId_def)

text \<open>
  Claim C6. Lookup returns the definition stored under the exact id when there is one,
  and otherwise whatever is stored under the part of the id before its first colon, so
  not-found exactly when neither key is present. After registering a definition under a
  colon-free id such as \<open>edit-x\<close>, looking up that id followed by a colon and any
  suffix, unless that longer id is itself registered, returns the same definition as
  looking up the id itself.
\<close>

theorem ModalManager_get_exact_then_base:
  "(\<forall>d. modals ident = Some d \<longrightarrow> ModalManager_get modals ident = Some d)
   \<and> (modals ident = None \<longrightarrow> ModalManager_get modals ident = modals (baseId ident))
   \<and> (ModalManager_get modals ident = None
        \<longleftrightarrow> modals ident = None \<and> modals (baseId ident) = None)
   \<and> (CHR '':'' \<notin> set (md_id d) \<and> modals (md_id d @ '':'' @ s) = None \<longrightarrow>
        ModalManager_get (snd (buildAndRegister d modals)) (md_id d) = Some d
        \<and> ModalManager_get (snd (buildAndRegister d modals)) (md_id d @ '':'' @ s) = Some d)
   \<and> (modals ''edit-x:42'' = None \<longrightarrow>
        ModalManager_get (snd (buildAndRegister (d\<lparr>md_id := ''edit-x''\<rparr>) modals)) ''edit-x:42''
          = ModalManager_get (snd (buildAndRegister (d\<lparr>md_id := ''edit-x''\<rparr>) modals)) ''edit-x'')"
proof -
  have exact: "\<forall>d. modals ident = Some d \<longrightarrow> ModalManager_get modals ident = Some d"
    by (simp add: ModalManager_get_def)
  have fallback: "modals ident = None \<longrightarrow> ModalManager_get modals ident = modals (baseId ident)"
    by (simp add: ModalManager_get_def)
  have missing: "ModalManager_get modals ident = None
                   \<longleftrightarrow> modals ident = None \<and> modals (baseId ident) = None"
    by (simp add: ModalManager_get_def split: option.splits)
  have general: "ModalManager_get (snd (buildAndRegister d modals)) (md_id d) = Some d
                 \<and> ModalManager_get (snd (buildAndRegister d modals)) (md_id d @ '':'' @ s) = Some d"
    if "CHR '':'' \<notin> set (md_id d) \<and> modals (md_id d @ '':'' @ s) = None"
  proof -
    from that have base: "baseId (md_id d @ CHR '':'' # s) = md_id d"
      by (simp add: baseId_suffixed)
    from that show ?thesis
      by (simp add: ModalManager_get_def buildAndRegister_def base)
  qed
  have example: "ModalManager_get (snd (buildAndRegister (d\<lparr>md_id := ''edit-x''\<rparr>) modals)) ''edit-x:42''
          = ModalManager_get (snd (buildAndRegister (d\<lparr>md_id := ''edit-x''\<rparr>) modals)) ''edit-x''"
    if "modals ''edit-x:42'' = None"
    using that by (simp add: ModalManager_get_def buildAndRegister_def baseId_def)
  from exact fallback missing general example show ?thesis by blast
qed

theorem ModalManager_get_exact_then_base_witness:
  "ModalManager_get (snd (buildAndRegister ex_edit Map.empty)) ''edit-x'' = Some ex_edit
   \<and> ModalManager_get (snd (buildAndRegister ex_edit Map.empty)) ''edit-x:42'' = Some ex_edit
   \<and> ModalManager_get (snd (buildAndRegister ex_edit Map.empty)) ''delete-x:42'' = None"
proof -
  let ?modals = "snd (buildAndRegister ex_edit Map.empty)"
  have id: "md_id ex_edit = ''edit-x''" by (simp add: ex_edit_def)
  have h: "CHR '':'' \<notin> set (md_id ex_edit)
           \<and> (Map.empty :: registry) (md_id ex_edit @ '':'' @ ''42'') = None"
    by (simp add: ex_edit_def)
  have miss: "?modals ''delete-x:42'' = None \<and> ?modals (baseId ''delete-x:42'') = None"
    by (simp add: buildAndRegister_def baseId_def ex_edit_def)
  from ModalManager_get_exact_then_base [of Map.empty _ ex_edit "''42''"] h id
  have found: "ModalManager_get ?modals ''edit-x'' = Some ex_edit"
    "ModalManager_get ?modals ''edit-x:42'' = Some ex_edit"
    by simp_all
  from ModalManager_get_exact_then_base [of ?modals "''delete-x:42''"] miss
  have "ModalManager_get ?modals ''delete-x:42'' = None"
    by blast
  with found show ?thesis by simp
qed

text \<open>
  A submission under the exact id of an ephemeral definition removes it; a submission
  handled by a definition that is not ephemeral leaves the registry as it is.
\<close>

lemma handleSubmit_exact_removes:
  assumes "modals (customId i) = Some d" and "md_ephemeral d" and "onSubmit d i w = (None, w1)"
  shows "handleSubmit modals i w = ((None, w1), modals(customId i := None))"
  using assms by (simp add: handleSubmit_def ModalManager_get_def remove_def)

lemma handleSubmit_keeps:
  assumes "ModalManager_get modals (customId i) = Some d" and "\<not> md_ephemeral d"
      and "onSubmit d i w = (None, w1)"
  shows "handleSubmit modals i w = ((None, w1), modals)"
  using assms by (simp add: handleSubmit_def)

text \<open>
  Claim C2 fails on the suffix fallback. The ephemeral definition \<open>edit-x\<close> handles the
  submission \<open>edit-x:42\<close>, but \<open>handleSubmit\<close> then removes the key \<open>edit-x:42\<close>, which the
  registry does not hold: the registry is unchanged, the definition is still there, and
  a second submission with the same id is handled again instead of failing not-found.
\<close>

theorem handleSubmit_suffix_not_one_shot:
  "handleSubmit (snd (buildAndRegister ex_edit Map.empty))
       (ex_event ''edit-x:42'') w
     = ((None, w), snd (buildAndRegister ex_edit Map.empty))
   \<and> fst (fst (handleSubmit
                 (snd (handleSubmit (snd (buildAndRegister ex_edit Map.empty))
                         (ex_event ''edit-x:42'') w))
                 (ex_event ''edit-x:42'') w))
     = None
   \<and> ModalManager_get
         (snd (handleSubmit (snd (buildAndRegister ex_edit Map.empty))
                 (ex_event ''edit-x:42'') w))
         ''edit-x:42''
     = Some ex_edit"
proof -
  let ?modals = "snd (buildAndRegister ex_edit Map.empty)"
  let ?i = "ex_event ''edit-x:42''"
  have found: "ModalManager_get ?modals ''edit-x:42'' = Some ex_edit"
    by (simp add: ModalManager_get_def buildAndRegister_def baseId_def ex_edit_def)
  have absent: "?modals ''edit-x:42'' = None"
    by (simp add: buildAndRegister_def ex_edit_def)
  then have same: "?modals(''edit-x:42'' := None) = ?modals"
    by (simp add: fun_upd_idem_iff)
  have handler: "onSubmit ex_edit ?i w = (None, w)" and eph: "md_ephemeral ex_edit"
    by (simp_all add: ex_edit_def)
  have cid: "customId ?i = ''edit-x:42''"
    by (simp add: ex_event_def)
  have once: "handleSubmit ?modals ?i w = ((None, w), ?modals)"
    by (simp add: handleSubmit_def remove_def cid found same handler eph)
  show ?thesis
    by (simp add: once found)
qed

section \<open>Properties of the paginated browser\<close>

lemma stop_session:
  "\<not> alive (fst (stop p w))" "index (fst (stop p w)) = index p" "items (fst (stop p w)) = items p"
  by (simp_all add: stop_def alive_def split: option.splits)

lemma snd_paginate:
  "snd (paginate p btn w) =
     (if customId btn = ''prev'' then p\<lparr>index := max 0 (index p - 1)\<rparr>
      else if customId btn = ''next''
      then p\<lparr>index := min (int (length (items p)) - 1) (index p + 1)\<rparr>
      else p)"
  by (simp add: paginate_def Let_def)

lemma paginate_keeps:
  assumes "alive p \<longrightarrow> in_range p"
  shows "alive (snd (paginate p btn w)) \<longrightarrow> in_range (snd (paginate p btn w))"
  using assms by (auto simp: snd_paginate alive_def in_range_def)

lemma collect_keeps:
  assumes "alive p \<longrightarrow> in_range p"
  shows "alive (snd (collect p btn w)) \<longrightarrow> in_range (snd (collect p btn w))"
proof (cases "userId btn \<noteq> userId (p_interaction p)")
  case True
  then show ?thesis using assms by (simp add: collect_def)
next
  case owner: False
  show ?thesis
  proof (cases "case options p of Some opts \<Rightarrow> onCustomButton opts | None \<Rightarrow> None")
    case None
    then show ?thesis using owner paginate_keeps [OF assms] by (simp add: collect_def)
  next
    case (Some handler)
    obtain res w1 where h: "handler (customId btn) (index p) (items p) w = (res, w1)"
      by (cases "handler (customId btn) (index p) (items p) w")
    show ?thesis
    proof (cases res)
      case (Inl err)
      then show ?thesis using owner Some h assms by (simp add: collect_def)
    next
      case (Inr result)
      show ?thesis
      proof (cases "handled result")
        case False
        then show ?thesis using owner Some h Inr paginate_keeps [OF assms]
          by (simp add: collect_def)
      next
        case True
        show ?thesis
        proof (cases "newItems result")
          case None
          then show ?thesis using owner Some h Inr True assms by (simp add: collect_def)
        next
          case new: (Some new)
          let ?p1 = "p\<lparr>items := new, index := min (index p) (int (length new) - 1)\<rparr>"
          show ?thesis
          proof (cases "length new = 0 \<or> stopCollector result = Some True")
            case stopped: True
            obtain p2 w2 where s: "stop ?p1 w1 = (p2, w2)" by (cases "stop ?p1 w1")
            then have "\<not> alive p2" using stop_session(1) [of ?p1 w1] by simp
            moreover have "snd (collect p btn w) = p2"
              using owner Some h Inr True new stopped s by (simp add: collect_def Let_def)
            ultimately show ?thesis by simp
          next
            case False
            then have snd: "snd (collect p btn w) = ?p1"
              using owner Some h Inr True new by (simp add: collect_def Let_def)
            from False have "new \<noteq> []" by simp
            then show ?thesis using assms unfolding snd
              by (auto simp: alive_def in_range_def)
          qed
        qed
      qed
    qed
  qed
qed

lemma deliver_keeps:
  assumes "alive p \<longrightarrow> in_range p"
  shows "alive (snd (deliver p ev w)) \<longrightarrow> in_range (snd (deliver p ev w))"
proof (cases ev)
  case (Click btn)
  then show ?thesis using assms collect_keeps [OF assms] by (simp add: deliver_def)
next
  case TimeUp
  then show ?thesis using stop_session(1) [of p w]
    by (auto simp: deliver_def split: prod.splits)
qed

lemma events_keep:
  assumes "alive p \<longrightarrow> in_range p"
  shows "alive (fst (events p evs w)) \<longrightarrow> in_range (fst (events p evs w))"
  using assms
proof (induction evs arbitrary: p w)
  case Nil
  then show ?case by simp
next
  case (Cons ev evs)
  obtain r w' p' where d: "deliver p ev w = ((r, w'), p')"
    by (metis prod.collapse)
  from deliver_keeps [OF Cons.prems, of ev w] d have "alive p' \<longrightarrow> in_range p'" by simp
  then have "alive (fst (events p' evs w')) \<longrightarrow> in_range (fst (events p' evs w'))"
    by (rule Cons.IH)
  then show ?case using d by simp
qed

lemma start_session:
  assumes "start p w = ((None, w1), p1)"
  shows "index p1 = index p" and "items p1 = items p" and "alive p1"
  using assms
  by (auto simp: start_def alive_def split: prod.splits option.splits)

lemma builtin_click:
  assumes "alive p" and "userId btn = userId (p_interaction p)" and "unhandled p btn w"
  shows "\<exists>w'. snd (deliver p (Click btn) w) = snd (paginate p btn w')"
proof (cases "case options p of Some opts \<Rightarrow> onCustomButton opts | None \<Rightarrow> None")
  case None
  then show ?thesis using assms by (auto simp: deliver_def collect_def)
next
  case (Some handler)
  obtain res w1 where h: "handler (customId btn) (index p) (items p) w = (res, w1)"
    by (cases "handler (customId btn) (index p) (items p) w")
  with assms(3) Some obtain result where "res = Inr result" and "\<not> handled result"
    by (auto simp: unhandled_def split: sum.splits)
  then have "snd (deliver p (Click btn) w) = snd (paginate p btn w1)"
    using assms(1,2) Some h by (simp add: deliver_def collect_def)
  then show ?thesis ..
qed

text \<open>
  What does hold: for a session started on a non-empty list whose handler hands every
  change of the list back through \<open>newItems\<close>. Such a session starts alive at index \<open>0\<close>;
  after any run of clicks and time-outs, while it is alive its list is non-empty and its
  index within \<open>[0, length - 1]\<close>; a \<open>prev\<close> click of the owner at index \<open>0\<close> and a \<open>next\<close>
  click at the last index, when left to the built-in pagination, leave the session as it
  is; and a click after which the list is empty leaves the session ended.
\<close>

lemma index_in_range_from_nonempty_start:
  assumes nonempty: "its \<noteq> []"
      and started: "start (PaginatedEmbed_new i its build opts) w0 = ((None, w1), p1)"
  shows "index p1 = 0 \<and> items p1 = its \<and> alive p1
         \<and> (let p2 = fst (events p1 evs w1)
            in (alive p2 \<longrightarrow>
                  items p2 \<noteq> [] \<and> 0 \<le> index p2 \<and> index p2 \<le> int (length (items p2)) - 1)
               \<and> (\<forall>btn w. alive p2 \<and> userId btn = userId (p_interaction p2) \<and> unhandled p2 btn w \<longrightarrow>
                     (customId btn = ''prev'' \<and> index p2 = 0 \<longrightarrow>
                        snd (deliver p2 (Click btn) w) = p2)
                     \<and> (customId btn = ''next'' \<and> index p2 = int (length (items p2)) - 1 \<longrightarrow>
                          snd (deliver p2 (Click btn) w) = p2))
               \<and> (\<forall>ev w. items (snd (deliver p2 ev w)) = [] \<longrightarrow> \<not> alive (snd (deliver p2 ev w))))"
proof -
  let ?p0 = "PaginatedEmbed_new i its build opts"
  have p0: "index ?p0 = 0" "items ?p0 = its"
    by (simp_all add: PaginatedEmbed_new_def)
  from start_session [OF started] p0
  have p1: "index p1 = 0" "items p1 = its" "alive p1" by simp_all
  with nonempty have inv1: "alive p1 \<longrightarrow> in_range p1"
    by (simp add: in_range_def)
  let ?p2 = "fst (events p1 evs w1)"
  have inv2: "alive ?p2 \<longrightarrow> in_range ?p2"
    using inv1 by (rule events_keep)
  have range: "alive ?p2 \<longrightarrow>
                 items ?p2 \<noteq> [] \<and> 0 \<le> index ?p2 \<and> index ?p2 \<le> int (length (items ?p2)) - 1"
    using inv2 by (auto simp: in_range_def)
  have noop: "(customId btn = ''prev'' \<and> index ?p2 = 0 \<longrightarrow>
                 snd (deliver ?p2 (Click btn) w) = ?p2)
              \<and> (customId btn = ''next'' \<and> index ?p2 = int (length (items ?p2)) - 1 \<longrightarrow>
                   snd (deliver ?p2 (Click btn) w) = ?p2)"
    if "alive ?p2 \<and> userId btn = userId (p_interaction ?p2) \<and> unhandled ?p2 btn w" for btn w
  proof -
    from that obtain w' where "snd (deliver ?p2 (Click btn) w) = snd (paginate ?p2 btn w')"
      using builtin_click by blast
    then show ?thesis by (auto simp: snd_paginate)
  qed
  have empties: "items (snd (deliver ?p2 ev w)) = [] \<longrightarrow> \<not> alive (snd (deliver ?p2 ev w))" for ev w
    using deliver_keeps [OF inv2, of ev w] by (auto simp: in_range_def)
  from p1 range noop empties show ?thesis
    unfolding Let_def by blast
qed

lemmas pagination_eval =
  start_def safeReply_def call_def view_def buildButtons_def createPaginationButtons_def
  createButtonsRow_def createButton_def item_at_def PaginatedEmbed_new_def
  deliver_def collect_def paginate_def show_page_def stop_def on_end_def alive_def
  unhandled_def ex_pages_def ex_handler_def ex_empty_def ex_refresh_def ex_event_def ex_interaction_def ex_world_def Let_def

text \<open>Three items: \<open>next\<close> gives index 1, then 2, then stays at 2; \<open>clear\<close> ends the session.\<close>

lemma three_items_example:
  "fst (fst (start ex_pages ex_world)) = None
   \<and> index (snd (start ex_pages ex_world)) = 0
   \<and> index (fst (events (snd (start ex_pages ex_world))
                 [Click (ex_event ''next'')]
                 (snd (fst (start ex_pages ex_world))))) = 1
   \<and> index (fst (events (snd (start ex_pages ex_world))
                 [Click (ex_event ''next''),
                  Click (ex_event ''next'')]
                 (snd (fst (start ex_pages ex_world))))) = 2
   \<and> index (fst (events (snd (start ex_pages ex_world))
                 [Click (ex_event ''next''),
                  Click (ex_event ''next''),
                  Click (ex_event ''next'')]
                 (snd (fst (start ex_pages ex_world))))) = 2
   \<and> \<not> alive (fst (events (snd (start ex_pages ex_world))
                 [Click (ex_event ''clear'')]
                 (snd (fst (start ex_pages ex_world)))))"
proof -
  let ?opts = "Some \<lparr>extraButtons = None, timeout = None, onCustomButton = Some ex_handler\<rparr>"
  let ?build = "\<lambda>item (idx::int) (n::int). case item of Some s \<Rightarrow> [s::string] | None \<Rightarrow> []"
  let ?p1 = "snd (start ex_pages ex_world)"
  let ?w1 = "snd (fst (start ex_pages ex_world))"
  let ?next = "ex_event ''next''"
  let ?clear = "ex_event ''clear''"
  have ok: "fst (fst (start ex_pages ex_world)) = None"
    by (simp add: pagination_eval)
  have nonempty: "[''a'', ''b'', ''c''] \<noteq> []" by simp
  have started: "start (PaginatedEmbed_new ex_interaction [''a'', ''b'', ''c''] ?build ?opts) ex_world
                   = ((None, ?w1), ?p1)"
    using ok by (simp add: ex_pages_def prod_eq_iff)
  note t = index_in_range_from_nonempty_start [OF nonempty started]
  have one: "index (fst (events ?p1 [Click ?next] ?w1)) = 1"
    by (simp add: pagination_eval)
  let ?p2 = "fst (events ?p1 [Click ?next, Click ?next] ?w1)"
  let ?w2 = "snd (events ?p1 [Click ?next, Click ?next] ?w1)"
  have two: "index ?p2 = 2" "items ?p2 = [''a'', ''b'', ''c'']" "alive ?p2"
    "userId ?next = userId (p_interaction ?p2)" "unhandled ?p2 ?next ?w2"
    by (simp_all add: pagination_eval)
  have last: "index ?p2 = int (length (items ?p2)) - 1"
    unfolding two(1) two(2) by simp
  have next_id: "customId ?next = ''next''"
    by (simp add: ex_event_def)
  from t [of "[Click ?next, Click ?next]"]
  have "\<forall>btn w. alive ?p2 \<and> userId btn = userId (p_interaction ?p2) \<and> unhandled ?p2 btn w \<longrightarrow>
          (customId btn = ''prev'' \<and> index ?p2 = 0 \<longrightarrow> snd (deliver ?p2 (Click btn) w) = ?p2)
          \<and> (customId btn = ''next'' \<and> index ?p2 = int (length (items ?p2)) - 1 \<longrightarrow>
               snd (deliver ?p2 (Click btn) w) = ?p2)"
    unfolding Let_def by blast
  with two(3,4,5) last next_id
  have stay: "snd (deliver ?p2 (Click ?next) ?w2) = ?p2"
    by blast
  have "events ?p1 [Click ?next, Click ?next, Click ?next] ?w1
          = events ?p2 [Click ?next] ?w2"
    by (simp add: split_beta)
  then have three: "index (fst (events ?p1 [Click ?next, Click ?next, Click ?next] ?w1)) = 2"
    using stay two(1) by (simp add: split_beta)
  have cleared: "\<not> alive (fst (events ?p1 [Click ?clear] ?w1))"
    by (simp add: pagination_eval)
  from ok t one two(1) three cleared show ?thesis by simp
qed

text \<open>
  With a replacement list, the handled click ends the session when the list is empty or
  a stop is requested.
\<close>

lemma collect_stops_with_replacement:
  assumes "userId btn = userId (p_interaction p)"
      and "options p = Some opts" and "onCustomButton opts = Some handler"
      and "handler (customId btn) (index p) (items p) w = (Inr result, w1)"
      and "handled result" and "newItems result = Some new"
      and "new = [] \<or> stopCollector result = Some True"
  shows "\<not> alive (snd (collect p btn w))"
proof -
  let ?p1 = "p\<lparr>items := new, index := min (index p) (int (length new) - 1)\<rparr>"
  obtain p2 w2 where s: "stop ?p1 w1 = (p2, w2)" by (cases "stop ?p1 w1")
  then have "\<not> alive p2" using stop_session(1) [of ?p1 w1] by simp
  moreover have "snd (collect p btn w) = p2"
    using assms s by (auto simp: collect_def Let_def)
  ultimately show ?thesis by simp
qed

text \<open>
  Claim C3 fails when the handler asks for a stop without a replacement list. The
  handler of the example answers the \<open>close\<close> click with \<open>handled\<close> and \<open>stopCollector\<close>
  and no \<open>newItems\<close>: the stop test is never reached, the session stays alive, and the
  \<open>next\<close> click that follows is still processed.
\<close>

theorem collect_ignores_stop_without_replacement:
  "fst (ex_handler ''close'' 0 [''a'', ''b'', ''c''] w)
     = Inr \<lparr>handled = True, newItems = None, stopCollector = Some True\<rparr>
   \<and> alive (snd (start ex_pages ex_world))
   \<and> alive (fst (events (snd (start ex_pages ex_world))
                 [Click (ex_event ''close'')]
                 (snd (fst (start ex_pages ex_world)))))
   \<and> index (fst (events (snd (start ex_pages ex_world))
                 [Click (ex_event ''close''),
                  Click (ex_event ''next'')]
                 (snd (fst (start ex_pages ex_world))))) = 1"
  by (simp add: pagination_eval)

text \<open>
  Claim C5 fails for a session started on the empty list. There the \<open>next\<close> button is
  enabled (\<open>0 = total - 1\<close> is false for \<open>total = 0\<close>), and the click sets the index to
  \<open>min (0 - 1) (0 + 1) = -1\<close>. When the handler then replaces the list with two items, the
  index becomes \<open>min (-1) (2 - 1) = -1\<close>: the session is alive, its list is non-empty, and
  its index is outside \<open>[0, length - 1]\<close>, addressing no item.
\<close>

theorem pagination_index_leaves_range:
  "createPaginationButtons 0 0
     = [\<lparr>b_customId = ''prev'', b_disabled = True\<rparr>, \<lparr>b_customId = ''next'', b_disabled = False\<rparr>]
   \<and> fst (fst (start ex_empty ex_world)) = None
   \<and> alive (snd (start ex_empty ex_world))
   \<and> index (snd (start ex_empty ex_world)) = 0
   \<and> index (fst (events (snd (start ex_empty ex_world))
                 [Click (ex_event ''next'')]
                 (snd (fst (start ex_empty ex_world))))) = - 1
   \<and> alive (fst (events (snd (start ex_empty ex_world))
                 [Click (ex_event ''next''), Click (ex_event ''refresh'')]
                 (snd (fst (start ex_empty ex_world)))))
   \<and> items (fst (events (snd (start ex_empty ex_world))
                 [Click (ex_event ''next''), Click (ex_event ''refresh'')]
                 (snd (fst (start ex_empty ex_world))))) = [''x'', ''y'']
   \<and> index (fst (events (snd (start ex_empty ex_world))
                 [Click (ex_event ''next''), Click (ex_event ''refresh'')]
                 (snd (fst (start ex_empty ex_world))))) = - 1
   \<and> item_at [''x'', ''y''] (- 1) = (None :: string option)"
  by (simp add: pagination_eval)

end
